theory Spec2Isabelle
  imports Complex_Main
begin

section \<open>YouTube comment extraction: data model\<close>

text \<open>
  The development embeds \<^verbatim>\<open>main.py\<close>: the quota-tracked gateway
  (\<^verbatim>\<open>track_quota\<close>, \<^verbatim>\<open>api_call_with_retry\<close>), channel resolution
  (\<^verbatim>\<open>get_channel_id_from_url\<close>), the state store (\<^verbatim>\<open>load_state\<close>,
  \<^verbatim>\<open>load_sub_comments\<close>, \<^verbatim>\<open>atomic_write_json\<close>), the three paginated
  fetchers and the main block.

  Python strings are \<open>string\<close>; one \<open>char\<close> stands for one code point, so that
  \<open>length\<close> is Python's \<^verbatim>\<open>len\<close>.
\<close>

subsection \<open>JSON values, as \<^verbatim>\<open>json.load\<close> and \<^verbatim>\<open>json.dump\<close> see them\<close>

text \<open>Numbers are the integers; a dict is an association list in insertion order.\<close>

datatype json =
    JNull
  | JBool bool
  | JInt int
  | JStr string
  | JList "json list"
  | JObj "(string \<times> json) list"

subsection \<open>Exceptions\<close>

text \<open>
  \<open>HttpError status reason msg\<close>: \<^verbatim>\<open>e.resp.status\<close>, what
  \<^verbatim>\<open>parse_http_error_reason(e)\<close> returns on it (the reason of the first error of the
  JSON payload, \<open>None\<close> when the payload has none or does not parse), and \<^verbatim>\<open>str(e)\<close>.
  The other constructors carry \<^verbatim>\<open>str(e)\<close>. \<open>JSONDecodeError\<close> is a subclass of
  \<open>ValueError\<close> in Python; \<open>OtherException\<close> is any other subclass of
  \<^verbatim>\<open>Exception\<close>.
\<close>

datatype exn =
    HttpError nat "string option" string
  | ValueError string
  | JSONDecodeError string
  | KeyError string
  | TypeError string
  | AttributeError string
  | OtherException string

fun str_exn :: "exn \<Rightarrow> string" where
  "str_exn (HttpError s r m) = m"
| "str_exn (ValueError m) = m"
| "str_exn (JSONDecodeError m) = m"
| "str_exn (KeyError m) = m"
| "str_exn (TypeError m) = m"
| "str_exn (AttributeError m) = m"
| "str_exn (OtherException m) = m"

text \<open>\<^verbatim>\<open>isinstance(e, ValueError)\<close>, which also decides \<^verbatim>\<open>except ValueError\<close>.\<close>

fun isinstance_ValueError :: "exn \<Rightarrow> bool" where
  "isinstance_ValueError (ValueError m) = True"
| "isinstance_ValueError (JSONDecodeError m) = True"
| "isinstance_ValueError e = False"

text \<open>\<^verbatim>\<open>isinstance(e, HttpError)\<close>, which decides \<^verbatim>\<open>except HttpError\<close>.\<close>

fun isinstance_HttpError :: "exn \<Rightarrow> bool" where
  "isinstance_HttpError (HttpError s r m) = True"
| "isinstance_HttpError e = False"

text \<open>
  \<^verbatim>\<open>parse_http_error_reason\<close> on an \<open>HttpError\<close>. The content of the error is
  taken to be bytes that decode, with a body in which the parser finds the reason or one of
  the four exceptions it catches; so the result is the reason or \<^verbatim>\<open>None\<close>, and the
  parser itself raises nothing.
\<close>

fun parse_http_error_reason :: "exn \<Rightarrow> string option" where
  "parse_http_error_reason (HttpError s r m) = r"
| "parse_http_error_reason e = None"

subsection \<open>The remote service\<close>

text \<open>
  A request is what the thunk passed to the gateway asks for; a response is the decoded
  body. An item is one element of \<^verbatim>\<open>response['items']\<close>, with the fields the code
  reads:
  \<^item> \<open>SearchItem c\<close>: \<^verbatim>\<open>item['snippet']['channelId']\<close>;
  \<^item> \<open>ChannelItem i u\<close>: \<^verbatim>\<open>item['id']\<close> and
    \<^verbatim>\<open>item['contentDetails']['relatedPlaylists']['uploads']\<close>;
  \<^item> \<open>PlaylistItem v t\<close>: \<^verbatim>\<open>item['snippet']['resourceId']['videoId']\<close> and
    \<^verbatim>\<open>item['snippet']['title']\<close>;
  \<^item> \<open>ThreadItem i text date likes n\<close>: the id, \<^verbatim>\<open>textDisplay\<close>,
    \<^verbatim>\<open>publishedAt\<close> and \<^verbatim>\<open>likeCount\<close> of
    \<^verbatim>\<open>thread['snippet']['topLevelComment']\<close>, and
    \<^verbatim>\<open>thread['snippet']['totalReplyCount']\<close>;
  \<^item> \<open>ReplyItem text date likes\<close>: \<^verbatim>\<open>textDisplay\<close>, \<^verbatim>\<open>publishedAt\<close> and
    \<^verbatim>\<open>likeCount\<close> of \<^verbatim>\<open>reply['snippet']\<close>.
  An item of another kind than the one the code reads lacks the key: \<open>KeyError\<close>.
\<close>

datatype request =
    Search_list string
  | Channels_list_forUsername string
  | Channels_list_id string
  | PlaylistItems_list string "string option"
  | CommentThreads_list string "string option"
  | Comments_list string "string option"

datatype item =
    SearchItem string
  | ChannelItem string string
  | PlaylistItem string string
  | ThreadItem string string string int int
  | ReplyItem string string int

record response =
  items :: "item list option"
  nextPageToken :: "string option"

datatype outcome = Ok response | Raise exn

record parsed_url =
  netloc :: string
  path :: string

text \<open>
  The environment of a run: \<open>api n r\<close> is what the \<open>n\<close>-th invocation of a thunk (counted
  from 0 over the whole run) does when it asks for \<open>r\<close>; \<open>jitter k\<close> is the \<open>k\<close>-th value
  drawn by \<^verbatim>\<open>random.uniform(0, 1)\<close>; \<open>urlparse\<close> is the library function of that name,
  reduced to the two fields the code reads.
\<close>

record env =
  api :: "nat \<Rightarrow> request \<Rightarrow> outcome"
  jitter :: "nat \<Rightarrow> real"
  urlparse :: "string \<Rightarrow> exn + parsed_url"

subsection \<open>What a run prints\<close>

datatype event =
    Retrying real nat nat
  | Max_retries_exceeded nat
  | Warning_parse_comments string
  | Warning_parse_sub_comments string
  | Warning_replies string string
  | Warning_replies_unexpected string string
  | Processing_channel string
  | Resolution_error string
  | Resuming nat
  | Existing_comments nat
  | Existing_sub_comments nat
  | Starting_fresh
  | Found_uploads_playlist string
  | Channel_error string
  | Channel_information_error string
  | Found_videos nat
  | Fetching_videos_error string
  | Videos_to_process nat
  | Videos_already_processed nat
  | Nothing_to_do
  | Skipping_comments_disabled string
  | Quota_exceeded_stopping
  | Processed_so_far nat nat
  | Quota_used int int
  | Run_again_to_resume
  | Video_error string string
  | Discrepancies_detected nat string
  | Processing_complete
  | Total_comments nat
  | Total_sub_comments nat
  | Quota_usage int int int
  | Unexpected_error string

subsection \<open>Files\<close>

text \<open>
  A file either holds text that \<^verbatim>\<open>json.load\<close> rejects (with the message of the
  \<open>JSONDecodeError\<close>) or the JSON value it decodes to. The bytes of a file are taken
  to be valid UTF-8, so that reading it raises nothing else.
\<close>

datatype file_content = Not_json string | Content json

subsection \<open>The state of the process and of the disk\<close>

text \<open>
  \<open>quota_used\<close> is the global of that name; \<open>requests\<close> are the thunk invocations made
  so far, \<open>draws\<close> counts the random draws, \<open>slept\<close> lists the arguments of
  \<^verbatim>\<open>time.sleep\<close> and \<open>out\<close> the messages printed, all in order.
\<close>

record state =
  quota_used :: int
  requests :: "request list"
  draws :: nat
  slept :: "real list"
  out :: "event list"
  files :: "string \<Rightarrow> file_content option"

definition print :: "event \<Rightarrow> state \<Rightarrow> state" where
  "print e st = st\<lparr>out := out st @ [e]\<rparr>"

section \<open>Configuration\<close>

definition CONFIG_output_dir :: string where
  "CONFIG_output_dir = ''output''"

definition CONFIG_retry_attempts :: nat where
  "CONFIG_retry_attempts = 3"

definition CONFIG_daily_quota_limit :: int where
  "CONFIG_daily_quota_limit = 10000"

section \<open>Quota tracking\<close>

definition QUOTA_COSTS :: "string \<Rightarrow> int option" where
  "QUOTA_COSTS =
     [''channels.list'' \<mapsto> 1,
      ''playlistItems.list'' \<mapsto> 1,
      ''commentThreads.list'' \<mapsto> 1,
      ''comments.list'' \<mapsto> 1,
      ''search.list'' \<mapsto> 100]"

text \<open>\<^verbatim>\<open>cost = QUOTA_COSTS.get(operation_type, 0); quota_used += cost\<close>\<close>

definition track_quota :: "string \<Rightarrow> state \<Rightarrow> state" where
  "track_quota operation_type st =
     (let cost = (case QUOTA_COSTS operation_type of Some c \<Rightarrow> c | None \<Rightarrow> 0)
      in st\<lparr>quota_used := quota_used st + cost\<rparr>)"

section \<open>The gateway\<close>

text \<open>\<^verbatim>\<open>api_func()\<close>: the invocation is recorded and the service answers.\<close>

definition api_func :: "env \<Rightarrow> request \<Rightarrow> state \<Rightarrow> outcome \<times> state" where
  "api_func E req st =
     (api E (length (requests st)) req, st\<lparr>requests := requests st @ [req]\<rparr>)"

text \<open>\<^verbatim>\<open>e.resp.status in [429, 503]\<close>\<close>

definition retryable_status :: "nat \<Rightarrow> bool" where
  "retryable_status s = (s = 429 \<or> s = 503)"

subsection \<open>Floating-point addition\<close>

text \<open>
  A Python float is an IEEE binary64 number, modelled by the real it denotes.
  \<open>float64 x\<close> is the double nearest to a real \<open>x\<close> with \<open>1 \<le> x < 2 ^ 1024\<close>, ties
  to the even significand: \<open>e\<close> is the exponent of \<open>x\<close>, found from its integer part,
  and \<open>q\<close> the distance between neighbouring doubles of that exponent.
\<close>

fun ilog2 :: "nat \<Rightarrow> nat" where
  "ilog2 n = (if n < 2 then 0 else Suc (ilog2 (n div 2)))"

declare ilog2.simps [simp del]

definition round_half_even :: "real \<Rightarrow> int" where
  "round_half_even y =
     (let f = \<lfloor>y\<rfloor> in
      if y - of_int f < 1 / 2 then f
      else if 1 / 2 < y - of_int f then f + 1
      else if even f then f else f + 1)"

definition float64 :: "real \<Rightarrow> real" where
  "float64 x =
     (let e = ilog2 (nat \<lfloor>x\<rfloor>); q = 2 ^ e / 2 ^ 52
      in q * of_int (round_half_even (x / q)))"

text \<open>The \<open>OverflowError\<close> of converting an integer from \<open>2 ** 1024\<close> on to a float.\<close>

definition int_too_large :: exn where
  "int_too_large = OtherException ''int too large to convert to float''"

text \<open>
  \<^verbatim>\<open>(2 ** attempt) + random.uniform(0, 1)\<close>, for the double \<open>u\<close> drawn: the integer
  power is converted to a float, exactly below \<open>2 ** 1024\<close> and with an
  \<open>OverflowError\<close> from there on, and the sum is rounded to the nearest double.
\<close>

definition wait_time :: "nat \<Rightarrow> real \<Rightarrow> exn + real" where
  "wait_time attempt u =
     (if 1024 \<le> attempt then Inl int_too_large
      else Inr (float64 (2 ^ attempt + u)))"

definition sleep :: "real \<Rightarrow> state \<Rightarrow> state" where
  "sleep w st = st\<lparr>slept := slept st @ [w]\<rparr>"

text \<open>
  The body of \<^verbatim>\<open>for attempt in range(max_retries)\<close>, from \<open>attempt\<close> on. The result is
  \<open>Inl e\<close> when \<open>e\<close> is raised, \<open>Inr (Some r)\<close> when \<open>r\<close> is returned and \<open>Inr None\<close>
  when the loop ends without a return, where Python returns \<^verbatim>\<open>None\<close>.
  \<^verbatim>\<open>if operation_type:\<close> holds for a string that is not empty. The jitter is drawn
  before the sum is formed, and an exception of the sum, raised inside the handler,
  leaves the function.
\<close>

function retry_loop ::
  "env \<Rightarrow> request \<Rightarrow> string option \<Rightarrow> nat \<Rightarrow> nat \<Rightarrow> state \<Rightarrow> (exn + response option) \<times> state"
where
  "retry_loop E req operation_type max_retries attempt st =
     (if attempt < max_retries then
        (case api_func E req st of
           (Ok result, st1) \<Rightarrow>
             (Inr (Some result),
              (case operation_type of
                 None \<Rightarrow> st1
               | Some t \<Rightarrow> if t \<noteq> [] then track_quota t st1 else st1))
         | (Raise e, st1) \<Rightarrow>
             (case e of
                HttpError status reason msg \<Rightarrow>
                  if retryable_status status then
                    if attempt < max_retries - 1 then
                      (let st2 = st1\<lparr>draws := draws st1 + 1\<rparr> in
                       case wait_time attempt (jitter E (draws st1)) of
                         Inl overflow \<Rightarrow> (Inl overflow, st2)
                       | Inr w \<Rightarrow>
                           (let st3 = print (Retrying w (attempt + 1) max_retries) st2;
                                st4 = sleep w st3
                            in retry_loop E req operation_type max_retries (attempt + 1) st4))
                    else (Inl e, print (Max_retries_exceeded max_retries) st1)
                  else (Inl e, st1)
              | _ \<Rightarrow> (Inl e, st1)))
      else (Inr None, st))"
  by pat_completeness auto
termination
  by (relation "measure (\<lambda>(E, req, operation_type, max_retries, attempt, st). max_retries - attempt)")
     auto

declare retry_loop.simps [simp del]

text \<open>\<^verbatim>\<open>max_retries=None\<close> stands for \<^verbatim>\<open>CONFIG['retry_attempts']\<close>.\<close>

definition api_call_with_retry ::
  "env \<Rightarrow> request \<Rightarrow> string option \<Rightarrow> nat option \<Rightarrow> state \<Rightarrow> (exn + response option) \<times> state"
where
  "api_call_with_retry E req operation_type max_retries st =
     retry_loop E req operation_type
       (case max_retries of None \<Rightarrow> CONFIG_retry_attempts | Some n \<Rightarrow> n) 0 st"

section \<open>Utility functions\<close>

definition create_video_link :: "string \<Rightarrow> string" where
  "create_video_link video_id = ''https://www.youtube.com/watch?v='' @ video_id"

text \<open>
  \<^verbatim>\<open>atomic_write_json\<close>: the target holds the new value once \<^verbatim>\<open>os.replace\<close> has
  run. Failures of the file system are not modelled.
\<close>

definition atomic_write_json :: "string \<Rightarrow> json \<Rightarrow> state \<Rightarrow> state" where
  "atomic_write_json file_path data st = st\<lparr>files := (files st)(file_path \<mapsto> Content data)\<rparr>"

subsection \<open>Python's string and container operations\<close>

text \<open>\<^verbatim>\<open>s.strip(c)\<close> for a single character \<open>c\<close>.\<close>

definition strip :: "char \<Rightarrow> string \<Rightarrow> string" where
  "strip c s = rev (dropWhile (\<lambda>x. x = c) (rev (dropWhile (\<lambda>x. x = c) s)))"

text \<open>\<^verbatim>\<open>s.split(c)\<close>: the empty string gives one empty segment.\<close>

fun split :: "char \<Rightarrow> string \<Rightarrow> string list" where
  "split c [] = [[]]"
| "split c (x # xs) =
     (if x = c then [] # split c xs
      else (case split c xs of
              w # ws \<Rightarrow> (x # w) # ws
            | [] \<Rightarrow> [[x]]))"

definition startswith :: "string \<Rightarrow> char \<Rightarrow> bool" where
  "startswith s c = (case s of [] \<Rightarrow> False | x # xs \<Rightarrow> x = c)"

text \<open>\<^verbatim>\<open>v[k]\<close> for a string key \<open>k\<close>.\<close>

fun subscript :: "json \<Rightarrow> string \<Rightarrow> exn + json" where
  "subscript (JObj kvs) k =
     (case map_of kvs k of Some v \<Rightarrow> Inr v | None \<Rightarrow> Inl (KeyError k))"
| "subscript (JList xs) k = Inl (TypeError ''list indices must be integers or slices, not str'')"
| "subscript (JStr s) k = Inl (TypeError ''string indices must be integers'')"
| "subscript v k = Inl (TypeError ''object is not subscriptable'')"

text \<open>\<^verbatim>\<open>for x in v\<close>: a dict gives its keys, a string its characters.\<close>

fun iterate :: "json \<Rightarrow> exn + json list" where
  "iterate (JList xs) = Inr xs"
| "iterate (JObj kvs) = Inr (map (\<lambda>kv. JStr (fst kv)) kvs)"
| "iterate (JStr s) = Inr (map (\<lambda>c. JStr [c]) s)"
| "iterate v = Inl (TypeError ''object is not iterable'')"

text \<open>Whether a value can be a member of a \<^verbatim>\<open>set\<close>.\<close>

fun hashable :: "json \<Rightarrow> bool" where
  "hashable (JList xs) = False"
| "hashable (JObj kvs) = False"
| "hashable v = True"

text \<open>\<^verbatim>\<open>len(v)\<close>\<close>

fun len :: "json \<Rightarrow> exn + nat" where
  "len (JList xs) = Inr (length xs)"
| "len (JObj kvs) = Inr (length kvs)"
| "len (JStr s) = Inr (length s)"
| "len v = Inl (TypeError ''object has no len()'')"

text \<open>\<^verbatim>\<open>v.extend(ys)\<close>: only a list has the method.\<close>

fun py_extend :: "json \<Rightarrow> json list \<Rightarrow> exn + json" where
  "py_extend (JList xs) ys = Inr (JList (xs @ ys))"
| "py_extend v ys = Inl (AttributeError ''object has no attribute extend'')"

section \<open>Channel resolution\<close>

text \<open>
  \<^verbatim>\<open>'items' in response and len(response['items']) > 0\<close>, then the field of the first
  item that \<open>pick\<close> reads; \<open>missing\<close> is raised when there is no item. A response of
  \<^verbatim>\<open>None\<close> has no \<^verbatim>\<open>in\<close>.
\<close>

definition first_item ::
  "response option \<Rightarrow> (item \<Rightarrow> exn + string) \<Rightarrow> exn \<Rightarrow> exn + string"
where
  "first_item response pick missing =
     (case response of
        None \<Rightarrow> Inl (TypeError ''argument of type NoneType is not iterable'')
      | Some r \<Rightarrow>
          (case items r of
             None \<Rightarrow> Inl missing
           | Some [] \<Rightarrow> Inl missing
           | Some (it # rest) \<Rightarrow> pick it))"

fun snippet_channelId :: "item \<Rightarrow> exn + string" where
  "snippet_channelId (SearchItem c) = Inr c"
| "snippet_channelId it = Inl (KeyError ''channelId'')"

fun item_id :: "item \<Rightarrow> exn + string" where
  "item_id (ChannelItem i u) = Inr i"
| "item_id it = Inl (KeyError ''id'')"

fun uploads :: "item \<Rightarrow> exn + string" where
  "uploads (ChannelItem i u) = Inr u"
| "uploads it = Inl (KeyError ''contentDetails'')"

text \<open>The \<^verbatim>\<open>try\<close> block of \<^verbatim>\<open>get_channel_id_from_url\<close>.\<close>

definition resolve :: "env \<Rightarrow> string \<Rightarrow> state \<Rightarrow> (exn + string) \<times> state" where
  "resolve E url st =
     (case urlparse E url of
        Inl e \<Rightarrow> (Inl e, st)
      | Inr parsed \<Rightarrow>
          if netloc parsed \<notin> set [''www.youtube.com'', ''youtube.com'', ''m.youtube.com'']
          then (Inl (ValueError (''Invalid YouTube URL: '' @ url)), st)
          else
            let path_segments = split (CHR ''/'') (strip (CHR ''/'') (path parsed)) in
            if length path_segments < 1
            then (Inl (ValueError (''Invalid YouTube channel URL format: '' @ url)), st)
            else if path_segments ! 0 = ''channel'' \<and> length path_segments \<ge> 2
            then (Inr (path_segments ! 1), st)
            else if startswith (path_segments ! 0) (CHR ''@'')
            then
              (let username = tl (path_segments ! 0) in
               case api_call_with_retry E (Search_list (''@'' @ username))
                      (Some ''search.list'') None st of
                 (Inl e, st1) \<Rightarrow> (Inl e, st1)
               | (Inr response, st1) \<Rightarrow>
                   (first_item response snippet_channelId
                      (ValueError (''Channel not found for handle: @'' @ username)), st1))
            else if path_segments ! 0 = ''c'' \<and> length path_segments \<ge> 2
            then
              (let custom_name = path_segments ! 1 in
               case api_call_with_retry E (Search_list custom_name)
                      (Some ''search.list'') None st of
                 (Inl e, st1) \<Rightarrow> (Inl e, st1)
               | (Inr response, st1) \<Rightarrow>
                   (first_item response snippet_channelId
                      (ValueError (''Channel not found for custom name: '' @ custom_name)), st1))
            else if path_segments ! 0 = ''user'' \<and> length path_segments \<ge> 2
            then
              (let username = path_segments ! 1 in
               case api_call_with_retry E (Channels_list_forUsername username)
                      (Some ''channels.list'') None st of
                 (Inl e, st1) \<Rightarrow> (Inl e, st1)
               | (Inr response, st1) \<Rightarrow>
                   (first_item response item_id
                      (ValueError (''Channel not found for username: '' @ username)), st1))
            else
              (let potential_id = last path_segments in
               if potential_id \<noteq> [] \<and> length potential_id = 24
               then (Inr potential_id, st)
               else (Inl (ValueError (''Unable to extract channel ID from URL: '' @ url)), st)))"

text \<open>
  \<^verbatim>\<open>except Exception as e\<close>: a \<open>ValueError\<close> is raised again, anything else becomes
  one.
\<close>

definition get_channel_id_from_url :: "env \<Rightarrow> string \<Rightarrow> state \<Rightarrow> (exn + string) \<times> state" where
  "get_channel_id_from_url E url st =
     (case resolve E url st of
        (Inr channel_id, st1) \<Rightarrow> (Inr channel_id, st1)
      | (Inl e, st1) \<Rightarrow>
          if isinstance_ValueError e then (Inl e, st1)
          else (Inl (ValueError (''Error parsing URL: '' @ str_exn e)), st1))"

section \<open>The state store\<close>

text \<open>
  \<^verbatim>\<open>set(comment['videoLink'] for comment in existing_comments)\<close>, element by element:
  the subscript, then the insertion, which needs a hashable value.
\<close>

fun video_links :: "json list \<Rightarrow> exn + json list" where
  "video_links [] = Inr []"
| "video_links (comment # rest) =
     (case subscript comment ''videoLink'' of
        Inl e \<Rightarrow> Inl e
      | Inr v \<Rightarrow>
          if hashable v then
            (case video_links rest of Inl e \<Rightarrow> Inl e | Inr vs \<Rightarrow> Inr (v # vs))
          else Inl (TypeError ''unhashable type''))"

text \<open>
  \<^verbatim>\<open>except (json.JSONDecodeError, KeyError)\<close>. The processed set is a set of JSON
  values; Python's set identifies \<^verbatim>\<open>True\<close> with \<^verbatim>\<open>1\<close>, which only the count printed
  on resuming could show.
\<close>

fun caught_by_load_state :: "exn \<Rightarrow> bool" where
  "caught_by_load_state (JSONDecodeError m) = True"
| "caught_by_load_state (KeyError m) = True"
| "caught_by_load_state e = False"

definition load_state :: "string \<Rightarrow> state \<Rightarrow> (exn + json set \<times> json) \<times> state" where
  "load_state comments_file st =
     (case files st comments_file of
        None \<Rightarrow> (Inr ({}, JList []), st)
      | Some f \<Rightarrow>
          (let attempt =
                 (case f of
                    Not_json m \<Rightarrow> Inl (JSONDecodeError m)
                  | Content existing_comments \<Rightarrow>
                      (case iterate existing_comments of
                         Inl e \<Rightarrow> Inl e
                       | Inr comments \<Rightarrow>
                           (case video_links comments of
                              Inl e \<Rightarrow> Inl e
                            | Inr links \<Rightarrow> Inr (set links, existing_comments))))
           in case attempt of
                Inr result \<Rightarrow> (Inr result, st)
              | Inl e \<Rightarrow>
                  if caught_by_load_state e
                  then (Inr ({}, JList []), print (Warning_parse_comments (str_exn e)) st)
                  else (Inl e, st)))"

definition load_sub_comments :: "string \<Rightarrow> state \<Rightarrow> json \<times> state" where
  "load_sub_comments sub_comments_file st =
     (case files st sub_comments_file of
        None \<Rightarrow> (JList [], st)
      | Some (Not_json m) \<Rightarrow> (JList [], print (Warning_parse_sub_comments m) st)
      | Some (Content existing_sub_comments) \<Rightarrow> (existing_sub_comments, st))"

section \<open>The paginated fetchers\<close>

text \<open>
  \<^verbatim>\<open>response['items']\<close>: \<^verbatim>\<open>None\<close> has no subscript, and the key may be absent.
\<close>

definition response_items :: "response option \<Rightarrow> exn + item list" where
  "response_items response =
     (case response of
        None \<Rightarrow> Inl (TypeError ''NoneType object is not subscriptable'')
      | Some r \<Rightarrow>
          (case items r of None \<Rightarrow> Inl (KeyError ''items'') | Some its \<Rightarrow> Inr its))"

text \<open>
  \<^verbatim>\<open>next_page_token = response.get('nextPageToken')\<close>, read after the items, so on a
  response that is not \<^verbatim>\<open>None\<close>; \<^verbatim>\<open>if not next_page_token: break\<close> leaves the loop on
  an absent or empty token.
\<close>

definition next_page :: "response option \<Rightarrow> string option" where
  "next_page response =
     (case response of
        None \<Rightarrow> None
      | Some r \<Rightarrow>
          (case nextPageToken r of
             None \<Rightarrow> None
           | Some t \<Rightarrow> if t = [] then None else Some t))"

subsection \<open>\<^verbatim>\<open>get_uploads_playlist_id\<close>\<close>

definition get_uploads_playlist_id :: "env \<Rightarrow> string \<Rightarrow> state \<Rightarrow> (exn + string) \<times> state" where
  "get_uploads_playlist_id E channel_id st =
     (let (r, st1) =
            (case api_call_with_retry E (Channels_list_id channel_id)
                    (Some ''channels.list'') None st of
               (Inl e, st1) \<Rightarrow> (Inl e, st1)
             | (Inr response, st1) \<Rightarrow>
                 (first_item response uploads
                    (ValueError (''Channel not found: '' @ channel_id)), st1))
      in case r of
           Inr uploads_playlist_id \<Rightarrow> (Inr uploads_playlist_id, st1)
         | Inl e \<Rightarrow>
             if isinstance_ValueError e then (Inl e, st1)
             else (Inl (OtherException
                          (''Error retrieving uploads playlist ID: '' @ str_exn e)), st1))"

subsection \<open>\<^verbatim>\<open>get_all_video_ids_and_titles\<close>\<close>

text \<open>A video is the dict \<^verbatim>\<open>{"id": ..., "title": ...}\<close>.\<close>

record video =
  vid :: string
  title :: string

text \<open>\<^verbatim>\<open>for item in response['items']\<close>, appending to \<open>videos\<close>.\<close>

fun video_items :: "item list \<Rightarrow> video list \<Rightarrow> exn + video list" where
  "video_items [] videos = Inr videos"
| "video_items (PlaylistItem video_id video_title # rest) videos =
     video_items rest (videos @ [\<lparr>vid = video_id, title = video_title\<rparr>])"
| "video_items (it # rest) videos = Inl (KeyError ''resourceId'')"

text \<open>
  The \<^verbatim>\<open>while True\<close> loop; \<open>None\<close> when it never ends, which a service that always
  sends a next page token brings about.
\<close>

partial_function (option) videos_loop ::
  "env \<Rightarrow> string \<Rightarrow> string option \<Rightarrow> video list \<Rightarrow> state \<Rightarrow> ((exn + video list) \<times> state) option"
where
  "videos_loop E playlist_id next_page_token videos st =
     (case api_call_with_retry E (PlaylistItems_list playlist_id next_page_token)
             (Some ''playlistItems.list'') None st of
        (Inl e, st1) \<Rightarrow> Some (Inl e, st1)
      | (Inr response, st1) \<Rightarrow>
          (case response_items response of
             Inl e \<Rightarrow> Some (Inl e, st1)
           | Inr its \<Rightarrow>
               (case video_items its videos of
                  Inl e \<Rightarrow> Some (Inl e, st1)
                | Inr videos1 \<Rightarrow>
                    (case next_page response of
                       None \<Rightarrow> Some (Inr videos1, st1)
                     | Some t \<Rightarrow> videos_loop E playlist_id (Some t) videos1 st1))))"

definition get_all_video_ids_and_titles ::
  "env \<Rightarrow> string \<Rightarrow> state \<Rightarrow> ((exn + video list) \<times> state) option"
where
  "get_all_video_ids_and_titles E playlist_id st =
     (case videos_loop E playlist_id None [] st of
        None \<Rightarrow> None
      | Some (Inr videos, st1) \<Rightarrow> Some (Inr videos, st1)
      | Some (Inl e, st1) \<Rightarrow>
          Some (Inl (OtherException
                       (''Error fetching videos from playlist '' @ playlist_id @ '': '' @ str_exn e)),
                st1))"

subsection \<open>\<^verbatim>\<open>fetch_video_comments\<close>\<close>

definition comment_obj :: "string \<Rightarrow> string \<Rightarrow> string \<Rightarrow> string \<Rightarrow> int \<Rightarrow> json" where
  "comment_obj comment_text video_title video_link date_posted likes_count =
     JObj [(''comment'', JStr comment_text),
           (''videoTitle'', JStr video_title),
           (''videoLink'', JStr video_link),
           (''datePostComment'', JStr date_posted),
           (''likesCount'', JInt likes_count)]"

text \<open>
  \<^verbatim>\<open>for thread in response['items']\<close>: the comment is appended, and the thread is noted
  with its reply count when that count is positive.
\<close>

fun thread_items ::
  "string \<Rightarrow> string \<Rightarrow> item list \<Rightarrow> json list \<times> (string \<times> int) list \<Rightarrow>
   exn + json list \<times> (string \<times> int) list"
where
  "thread_items video_title video_link [] acc = Inr acc"
| "thread_items video_title video_link
     (ThreadItem parent_comment_id comment_text date_posted likes_count total_reply_count # rest)
     (comments_list, threads_with_replies) =
     thread_items video_title video_link rest
       (comments_list @ [comment_obj comment_text video_title video_link date_posted likes_count],
        if total_reply_count > 0
        then threads_with_replies @ [(parent_comment_id, total_reply_count)]
        else threads_with_replies)"
| "thread_items video_title video_link (it # rest) acc = Inl (KeyError ''topLevelComment'')"

partial_function (option) comments_loop ::
  "env \<Rightarrow> string \<Rightarrow> string \<Rightarrow> string \<Rightarrow> string option \<Rightarrow>
   json list \<times> (string \<times> int) list \<Rightarrow> state \<Rightarrow>
   ((exn + json list \<times> (string \<times> int) list) \<times> state) option"
where
  "comments_loop E video_id video_title video_link next_page_token acc st =
     (case api_call_with_retry E (CommentThreads_list video_id next_page_token)
             (Some ''commentThreads.list'') None st of
        (Inl e, st1) \<Rightarrow> Some (Inl e, st1)
      | (Inr response, st1) \<Rightarrow>
          (case response_items response of
             Inl e \<Rightarrow> Some (Inl e, st1)
           | Inr its \<Rightarrow>
               (case thread_items video_title video_link its acc of
                  Inl e \<Rightarrow> Some (Inl e, st1)
                | Inr acc1 \<Rightarrow>
                    (case next_page response of
                       None \<Rightarrow> Some (Inr acc1, st1)
                     | Some t \<Rightarrow>
                         comments_loop E video_id video_title video_link (Some t) acc1 st1))))"

text \<open>\<^verbatim>\<open>except HttpError: raise\<close> changes nothing.\<close>

definition fetch_video_comments ::
  "env \<Rightarrow> string \<Rightarrow> string \<Rightarrow> string \<Rightarrow> state \<Rightarrow>
   ((exn + json list \<times> (string \<times> int) list) \<times> state) option"
where
  "fetch_video_comments E video_id video_title video_link st =
     comments_loop E video_id video_title video_link None ([], []) st"

subsection \<open>\<^verbatim>\<open>fetch_comment_replies\<close>\<close>

definition sub_comment_obj :: "string \<Rightarrow> string \<Rightarrow> string \<Rightarrow> string \<Rightarrow> string \<Rightarrow> int \<Rightarrow> json" where
  "sub_comment_obj sub_comment_text parent_comment_id video_title video_id date_posted like_count =
     JObj [(''subComment'', JStr sub_comment_text),
           (''parentCommentId'', JStr parent_comment_id),
           (''videoTitle'', JStr video_title),
           (''videoLinkId'', JStr video_id),
           (''datePostSubComment'', JStr date_posted),
           (''likeCount'', JInt like_count)]"

fun reply_items :: "string \<Rightarrow> string \<Rightarrow> string \<Rightarrow> item list \<Rightarrow> json list \<Rightarrow> exn + json list" where
  "reply_items parent_comment_id video_title video_id [] sub_comments_list = Inr sub_comments_list"
| "reply_items parent_comment_id video_title video_id
     (ReplyItem sub_comment_text date_posted like_count # rest) sub_comments_list =
     reply_items parent_comment_id video_title video_id rest
       (sub_comments_list @
        [sub_comment_obj sub_comment_text parent_comment_id video_title video_id date_posted like_count])"
| "reply_items parent_comment_id video_title video_id (it # rest) sub_comments_list =
     Inl (KeyError ''textDisplay'')"

partial_function (option) replies_loop ::
  "env \<Rightarrow> string \<Rightarrow> string \<Rightarrow> string \<Rightarrow> string option \<Rightarrow> json list \<Rightarrow> state \<Rightarrow>
   ((exn + json list) \<times> state) option"
where
  "replies_loop E parent_comment_id video_title video_id next_page_token sub_comments_list st =
     (case api_call_with_retry E (Comments_list parent_comment_id next_page_token)
             (Some ''comments.list'') None st of
        (Inl e, st1) \<Rightarrow> Some (Inl e, st1)
      | (Inr response, st1) \<Rightarrow>
          (case response_items response of
             Inl e \<Rightarrow> Some (Inl e, st1)
           | Inr its \<Rightarrow>
               (case reply_items parent_comment_id video_title video_id its sub_comments_list of
                  Inl e \<Rightarrow> Some (Inl e, st1)
                | Inr subs1 \<Rightarrow>
                    (case next_page response of
                       None \<Rightarrow> Some (Inr subs1, st1)
                     | Some t \<Rightarrow>
                         replies_loop E parent_comment_id video_title video_id (Some t) subs1 st1))))"

text \<open>
  The two handlers: an \<open>HttpError\<close> whose reason is \<open>quotaExceeded\<close> is raised again;
  any other exception is logged and the result is the empty list.
\<close>

definition fetch_comment_replies ::
  "env \<Rightarrow> string \<Rightarrow> string \<Rightarrow> string \<Rightarrow> state \<Rightarrow> ((exn + json list) \<times> state) option"
where
  "fetch_comment_replies E parent_comment_id video_title video_id st =
     (case replies_loop E parent_comment_id video_title video_id None [] st of
        None \<Rightarrow> None
      | Some (Inr sub_comments_list, st1) \<Rightarrow> Some (Inr sub_comments_list, st1)
      | Some (Inl e, st1) \<Rightarrow>
          if isinstance_HttpError e then
            (if parse_http_error_reason e = Some ''quotaExceeded''
             then Some (Inl e, st1)
             else Some (Inr [],
                        print (Warning_replies parent_comment_id (str_exn e)) st1))
          else Some (Inr [],
                     print (Warning_replies_unexpected parent_comment_id (str_exn e)) st1))"

section \<open>Main execution\<close>

subsection \<open>Step 8: the extraction loop\<close>

text \<open>The two records appended to \<^verbatim>\<open>failed_reply_fetches\<close>.\<close>

definition count_mismatch :: "string \<Rightarrow> string \<Rightarrow> string \<Rightarrow> string \<Rightarrow> int \<Rightarrow> int \<Rightarrow> json" where
  "count_mismatch parent_comment_id video_id video_title video_link reply_count fetched =
     JObj [(''parent_comment_id'', JStr parent_comment_id),
           (''video_id'', JStr video_id),
           (''video_title'', JStr video_title),
           (''video_link'', JStr video_link),
           (''expected_count'', JInt reply_count),
           (''fetched_count'', JInt fetched),
           (''missing_count'', JInt (reply_count - fetched))]"

definition fetch_failure :: "string \<Rightarrow> string \<Rightarrow> string \<Rightarrow> string \<Rightarrow> int \<Rightarrow> string \<Rightarrow> json" where
  "fetch_failure parent_comment_id video_id video_title video_link reply_count error =
     JObj [(''parent_comment_id'', JStr parent_comment_id),
           (''video_id'', JStr video_id),
           (''video_title'', JStr video_title),
           (''video_link'', JStr video_link),
           (''expected_count'', JInt reply_count),
           (''fetched_count'', JInt 0),
           (''missing_count'', JInt reply_count),
           (''error'', JStr error)]"

text \<open>
  \<^verbatim>\<open>for parent_comment_id, reply_count in threads_with_replies\<close>, with its
  \<^verbatim>\<open>try\<close> and \<^verbatim>\<open>except Exception\<close>: the result is the new sub-comments and the failed
  fetches; \<open>None\<close> when a fetch never returns.
\<close>

fun replies_for_threads ::
  "env \<Rightarrow> string \<Rightarrow> string \<Rightarrow> string \<Rightarrow> (string \<times> int) list \<Rightarrow> json list \<Rightarrow> json list \<Rightarrow> state \<Rightarrow>
   (json list \<times> json list \<times> state) option"
where
  "replies_for_threads E video_id video_title video_link [] new_sub_comments failed st =
     Some (new_sub_comments, failed, st)"
| "replies_for_threads E video_id video_title video_link
     ((parent_comment_id, reply_count) # rest) new_sub_comments failed st =
     (case fetch_comment_replies E parent_comment_id video_title video_id st of
        None \<Rightarrow> None
      | Some (Inr replies, st1) \<Rightarrow>
          replies_for_threads E video_id video_title video_link rest
            (new_sub_comments @ replies)
            (if int (length replies) \<noteq> reply_count
             then failed @ [count_mismatch parent_comment_id video_id video_title video_link
                              reply_count (int (length replies))]
             else failed)
            st1
      | Some (Inl e, st1) \<Rightarrow>
          replies_for_threads E video_id video_title video_link rest
            new_sub_comments
            (failed @ [fetch_failure parent_comment_id video_id video_title video_link
                         reply_count (str_exn e)])
            st1)"

text \<open>The lists the loop owns.\<close>

record lists =
  master_comments_list :: json
  master_sub_comments_list :: json
  failed_reply_fetches :: "json list"

text \<open>
  How one iteration ends: with the next video (\<^verbatim>\<open>continue\<close> or the end of the body),
  with \<^verbatim>\<open>break\<close>, or with an exception that leaves the loop.
\<close>

datatype flow = Next | Break | Escaped exn

text \<open>
  The \<open>quotaExceeded\<close> branch; a \<^verbatim>\<open>len\<close> that fails raises inside the handler, past
  the \<^verbatim>\<open>except Exception\<close> beside it.
\<close>

definition quota_exceeded_stop :: "lists \<Rightarrow> state \<Rightarrow> flow \<times> state" where
  "quota_exceeded_stop L st =
     (let st1 = print Quota_exceeded_stopping st in
      case len (master_comments_list L) of
        Inl e \<Rightarrow> (Escaped e, st1)
      | Inr n \<Rightarrow>
          (case len (master_sub_comments_list L) of
             Inl e \<Rightarrow> (Escaped e, st1)
           | Inr m \<Rightarrow>
               (Break,
                print Run_again_to_resume
                  (print (Quota_used (quota_used st1) CONFIG_daily_quota_limit)
                     (print (Processed_so_far n m) st1)))))"

text \<open>The body of \<^verbatim>\<open>for video in videos_to_process\<close>.\<close>

definition process_video ::
  "env \<Rightarrow> string \<Rightarrow> string \<Rightarrow> video \<Rightarrow> lists \<Rightarrow> state \<Rightarrow> (flow \<times> lists \<times> state) option"
where
  "process_video E comments_file sub_comments_file video L st =
     (let video_id = vid video;
          video_title = title video;
          video_link = create_video_link video_id
      in case fetch_video_comments E video_id video_title video_link st of
           None \<Rightarrow> None
         | Some (Inl e, st1) \<Rightarrow>
             if isinstance_HttpError e then
               (if parse_http_error_reason e = Some ''commentsDisabled''
                then Some (Next, L, print (Skipping_comments_disabled video_title) st1)
                else if parse_http_error_reason e = Some ''quotaExceeded''
                then (case quota_exceeded_stop L st1 of (f, st2) \<Rightarrow> Some (f, L, st2))
                else Some (Next, L, print (Video_error video_title (str_exn e)) st1))
             else Some (Next, L, print (Video_error video_title (str_exn e)) st1)
         | Some (Inr (new_comments, threads_with_replies), st1) \<Rightarrow>
             (case replies_for_threads E video_id video_title video_link threads_with_replies
                     [] (failed_reply_fetches L) st1 of
                None \<Rightarrow> None
              | Some (new_sub_comments, failed, st2) \<Rightarrow>
                  (let L1 = L\<lparr>failed_reply_fetches := failed\<rparr> in
                   case py_extend (master_comments_list L1) new_comments of
                     Inl e \<Rightarrow> Some (Escaped e, L1, st2)
                   | Inr comments \<Rightarrow>
                       (let L2 = L1\<lparr>master_comments_list := comments\<rparr> in
                        case py_extend (master_sub_comments_list L2) new_sub_comments of
                          Inl e \<Rightarrow> Some (Escaped e, L2, st2)
                        | Inr sub_comments \<Rightarrow>
                            Some (Next,
                                  L2\<lparr>master_sub_comments_list := sub_comments\<rparr>,
                                  atomic_write_json sub_comments_file sub_comments
                                    (atomic_write_json comments_file comments st2))))))"

fun extraction_loop ::
  "env \<Rightarrow> string \<Rightarrow> string \<Rightarrow> video list \<Rightarrow> lists \<Rightarrow> state \<Rightarrow> (exn option \<times> lists \<times> state) option"
where
  "extraction_loop E comments_file sub_comments_file [] L st = Some (None, L, st)"
| "extraction_loop E comments_file sub_comments_file (video # rest) L st =
     (case process_video E comments_file sub_comments_file video L st of
        None \<Rightarrow> None
      | Some (Next, L1, st1) \<Rightarrow> extraction_loop E comments_file sub_comments_file rest L1 st1
      | Some (Break, L1, st1) \<Rightarrow> Some (None, L1, st1)
      | Some (Escaped e, L1, st1) \<Rightarrow> Some (Some e, L1, st1))"

subsection \<open>Steps 9 and 10: the failed fetches and the completion message\<close>

definition finish :: "string \<Rightarrow> lists \<Rightarrow> state \<Rightarrow> exn option \<times> state" where
  "finish channel_id L st =
     (let failed_replies_file = CONFIG_output_dir @ ''/'' @ channel_id @ ''_failed_replies.json'';
          st1 = (if failed_reply_fetches L \<noteq> []
                 then print (Discrepancies_detected (length (failed_reply_fetches L))
                               failed_replies_file)
                        (atomic_write_json failed_replies_file
                           (JList (failed_reply_fetches L)) st)
                 else st);
          st2 = print Processing_complete st1
      in case len (master_comments_list L) of
           Inl e \<Rightarrow> (Some e, st2)
         | Inr n \<Rightarrow>
             (let st3 = print (Total_comments n) st2 in
              case len (master_sub_comments_list L) of
                Inl e \<Rightarrow> (Some e, st3)
              | Inr m \<Rightarrow>
                  (None,
                   print (Quota_usage (quota_used st3) CONFIG_daily_quota_limit
                            (CONFIG_daily_quota_limit - quota_used st3))
                     (print (Total_sub_comments m) st3))))"

subsection \<open>The main block\<close>

text \<open>
  How the process ends: \<open>Exit n\<close> is \<^verbatim>\<open>exit(n)\<close>, \<open>Finished\<close> the end of the script.
\<close>

datatype status = Exit nat | Finished

text \<open>The outermost \<^verbatim>\<open>except Exception\<close>.\<close>

definition unexpected :: "exn \<Rightarrow> state \<Rightarrow> status \<times> state" where
  "unexpected e st = (Exit 1, print (Unexpected_error (str_exn e)) st)"

text \<open>Step 7, the worklist.\<close>

definition videos_to_process :: "video list \<Rightarrow> json set \<Rightarrow> video list" where
  "videos_to_process all_videos processed_videos_set =
     filter (\<lambda>v. JStr (create_video_link (vid v)) \<notin> processed_videos_set) all_videos"

text \<open>The display of the resumption status in step 4.\<close>

definition resumption_status :: "json set \<Rightarrow> json \<Rightarrow> json \<Rightarrow> state \<Rightarrow> exn option \<times> state" where
  "resumption_status processed_videos_set comments sub_comments st =
     (if processed_videos_set \<noteq> {} then
        (let st1 = print (Resuming (card processed_videos_set)) st in
         case len comments of
           Inl e \<Rightarrow> (Some e, st1)
         | Inr n \<Rightarrow>
             (let st2 = print (Existing_comments n) st1 in
              case len sub_comments of
                Inl e \<Rightarrow> (Some e, st2)
              | Inr m \<Rightarrow> (None, print (Existing_sub_comments m) st2)))
      else (None, print Starting_fresh st))"

text \<open>Steps 7 to 10, once the videos of the channel are known.\<close>

definition extraction ::
  "env \<Rightarrow> string \<Rightarrow> video list \<Rightarrow> json set \<Rightarrow> json \<Rightarrow> json \<Rightarrow> state \<Rightarrow> (status \<times> state) option"
where
  "extraction E channel_id all_videos processed_videos_set comments sub_comments st =
     (let comments_file = CONFIG_output_dir @ ''/'' @ channel_id @ ''_comments.json'';
          sub_comments_file = CONFIG_output_dir @ ''/'' @ channel_id @ ''_sub_comments.json'';
          worklist = videos_to_process all_videos processed_videos_set;
          st1 = print (Videos_already_processed (length all_videos - length worklist))
                  (print (Videos_to_process (length worklist)) st)
      in if worklist = [] then Some (Exit 0, print Nothing_to_do st1)
         else
           (case extraction_loop E comments_file sub_comments_file worklist
                   \<lparr>master_comments_list = comments,
                    master_sub_comments_list = sub_comments,
                    failed_reply_fetches = []\<rparr> st1 of
              None \<Rightarrow> None
            | Some (Some e, L, st2) \<Rightarrow> Some (unexpected e st2)
            | Some (None, L, st2) \<Rightarrow>
                (case finish channel_id L st2 of
                   (Some e, st3) \<Rightarrow> Some (unexpected e st3)
                 | (None, st3) \<Rightarrow> Some (Finished, st3))))"

text \<open>Steps 5 and 6, the uploads playlist and its videos.\<close>

definition list_videos ::
  "env \<Rightarrow> string \<Rightarrow> state \<Rightarrow> ((status + video list) \<times> state) option"
where
  "list_videos E channel_id st =
     (case get_uploads_playlist_id E channel_id st of
        (Inl e, st1) \<Rightarrow>
          if isinstance_ValueError e
          then Some (Inl (Exit 1), print (Channel_error (str_exn e)) st1)
          else Some (Inl (Exit 1), print (Channel_information_error (str_exn e)) st1)
      | (Inr uploads_playlist_id, st1) \<Rightarrow>
          (case get_all_video_ids_and_titles E uploads_playlist_id
                  (print (Found_uploads_playlist uploads_playlist_id) st1) of
             None \<Rightarrow> None
           | Some (Inl e, st2) \<Rightarrow>
               Some (Inl (Exit 1), print (Fetching_videos_error (str_exn e)) st2)
           | Some (Inr all_videos, st2) \<Rightarrow>
               Some (Inr all_videos, print (Found_videos (length all_videos)) st2)))"

text \<open>
  The script from step 2 on, for the channel URL that step 1 obtained. \<open>None\<close> when a
  pagination loop never ends.
\<close>

definition main :: "env \<Rightarrow> string \<Rightarrow> state \<Rightarrow> (status \<times> state) option" where
  "main E channel_url st =
     (case get_channel_id_from_url E channel_url st of
        (Inl e, st1) \<Rightarrow>
          if isinstance_ValueError e
          then Some (Exit 1, print (Resolution_error (str_exn e)) st1)
          else Some (unexpected e st1)
      | (Inr channel_id, st1) \<Rightarrow>
          (let comments_file = CONFIG_output_dir @ ''/'' @ channel_id @ ''_comments.json'';
               sub_comments_file = CONFIG_output_dir @ ''/'' @ channel_id @ ''_sub_comments.json''
           in case load_state comments_file (print (Processing_channel channel_id) st1) of
                (Inl e, st2) \<Rightarrow> Some (unexpected e st2)
              | (Inr (processed_videos_set, comments), st2) \<Rightarrow>
                  (case load_sub_comments sub_comments_file st2 of
                     (sub_comments, st3) \<Rightarrow>
                       (case resumption_status processed_videos_set comments sub_comments st3 of
                          (Some e, st4) \<Rightarrow> Some (unexpected e st4)
                        | (None, st4) \<Rightarrow>
                            (case list_videos E channel_id st4 of
                               None \<Rightarrow> None
                             | Some (Inl s, st5) \<Rightarrow> Some (s, st5)
                             | Some (Inr all_videos, st5) \<Rightarrow>
                                 extraction E channel_id all_videos processed_videos_set
                                   comments sub_comments st5)))))"

text \<open>
  A process starts with the counter at zero and nothing requested, drawn, slept or
  printed; the disk is what the runs before left.
\<close>

definition start :: "(string \<Rightarrow> file_content option) \<Rightarrow> state" where
  "start disk =
     \<lparr>quota_used = 0, requests = [], draws = 0, slept = [], out = [], files = disk\<rparr>"

section \<open>Notions used in the statements\<close>

text \<open>What a call costs: the entry of the cost table, nothing without an operation type.\<close>

fun op_cost :: "string option \<Rightarrow> int" where
  "op_cost None = 0"
| "op_cost (Some t) = (case QUOTA_COSTS t of Some c \<Rightarrow> c | None \<Rightarrow> 0)"

text \<open>A call that returned a response.\<close>

fun returned :: "exn + response option \<Rightarrow> bool" where
  "returned (Inr (Some r)) = True"
| "returned x = False"

text \<open>A failure the gateway retries: rate-limited or service-unavailable.\<close>

fun retryable :: "exn \<Rightarrow> bool" where
  "retryable (HttpError s r m) = retryable_status s"
| "retryable e = False"

text \<open>
  A caller that makes the calls \<open>cs\<close> one after the other, each with its request and
  operation type and the default attempt ceiling; \<open>successful\<close> lists the operation
  types of those that returned.
\<close>

fun gateway_calls ::
  "env \<Rightarrow> (request \<times> string option) list \<Rightarrow> state \<Rightarrow> (exn + response option) list \<times> state"
where
  "gateway_calls E [] st = ([], st)"
| "gateway_calls E ((req, t) # cs) st =
     (case api_call_with_retry E req t None st of
        (r, st1) \<Rightarrow> (case gateway_calls E cs st1 of (rs, st2) \<Rightarrow> (r # rs, st2)))"

definition successful :: "(request \<times> string option) list \<Rightarrow> (exn + response option) list \<Rightarrow> string option list" where
  "successful cs rs = map (snd \<circ> fst) (filter (returned \<circ> snd) (zip cs rs))"


text \<open>The effects of one attempt on the state, named for the proofs.\<close>

definition charge :: "string option \<Rightarrow> state \<Rightarrow> state" where
  "charge t st = (case t of None \<Rightarrow> st | Some x \<Rightarrow> if x \<noteq> [] then track_quota x st else st)"

definition invoked :: "request \<Rightarrow> state \<Rightarrow> state" where
  "invoked req st = st\<lparr>requests := requests st @ [req]\<rparr>"

definition backoff :: "env \<Rightarrow> nat \<Rightarrow> nat \<Rightarrow> state \<Rightarrow> state" where
  "backoff E m a st =
     sleep (float64 (2 ^ a + jitter E (draws st)))
       (print (Retrying (float64 (2 ^ a + jitter E (draws st))) (a + 1) m)
          (st\<lparr>draws := draws st + 1\<rparr>))"


text \<open>The replies a fetch contributes: the list it returned, nothing when it raised.\<close>

fun fetched :: "exn + json list \<Rightarrow> json list" where
  "fetched (Inr replies) = replies"
| "fetched (Inl e) = []"

subsection \<open>Example environments\<close>

text \<open>
  What \<^verbatim>\<open>urlparse\<close> gives on a URL \<^verbatim>\<open>https://host/path\<close> without query or
  fragment, and on a string without a scheme.
\<close>

definition simple_urlparse :: "string \<Rightarrow> exn + parsed_url" where
  "simple_urlparse url =
     (if take 8 url = ''https://''
      then Inr \<lparr>netloc = takeWhile (\<lambda>c. c \<noteq> CHR ''/'') (drop 8 url),
                path = dropWhile (\<lambda>c. c \<noteq> CHR ''/'') (drop 8 url)\<rparr>
      else Inr \<lparr>netloc = [], path = url\<rparr>)"

text \<open>The environment of a service \<open>f\<close>, with every jitter one half.\<close>

definition service :: "(nat \<Rightarrow> request \<Rightarrow> outcome) \<Rightarrow> env" where
  "service f = \<lparr>api = f, jitter = (\<lambda>k. 1 / 2), urlparse = simple_urlparse\<rparr>"

definition empty_page :: response where
  "empty_page = \<lparr>items = Some [], nextPageToken = None\<rparr>"

definition forbidden :: exn where
  "forbidden = HttpError 403 (Some ''forbidden'') ''HttpError 403''"

text \<open>A service that answers every request with an empty page, and one that is always rate-limited.\<close>

definition always_ok :: env where
  "always_ok = service (\<lambda>n req. Ok empty_page)"



definition nobody_url :: string where
  "nobody_url = ''https://www.youtube.com/@nobody''"

text \<open>A disk whose comments file is valid JSON of another shape than a list of comments.\<close>

definition wrong_shape_disk :: "string \<Rightarrow> file_content option" where
  "wrong_shape_disk = [''output/UCx_comments.json'' \<mapsto> Content (JList [JInt 1])]"

text \<open>
  A reply service: every reply fetch gives three replies on one page; with
  \<open>five_expected\<close> the one thread of every video reports five.
\<close>

definition quota_exceeded :: exn where
  "quota_exceeded = HttpError 403 (Some ''quotaExceeded'') ''quota exceeded''"

definition three_replies :: "nat \<Rightarrow> request \<Rightarrow> outcome" where
  "three_replies n req =
     Ok \<lparr>items = Some [ReplyItem ''r1'' ''2024-01-01'' 0,
                        ReplyItem ''r2'' ''2024-01-02'' 1,
                        ReplyItem ''r3'' ''2024-01-03'' 0],
         nextPageToken = None\<rparr>"

definition five_expected :: "nat \<Rightarrow> request \<Rightarrow> outcome" where
  "five_expected n req =
     (case req of
        CommentThreads_list v tok \<Rightarrow>
          Ok \<lparr>items = Some [ThreadItem ''P1'' ''hello'' ''2024-01-01'' 2 5],
              nextPageToken = None\<rparr>
      | Comments_list p tok \<Rightarrow> three_replies n req
      | _ \<Rightarrow> Ok empty_page)"

definition three_reply_objects :: "json list" where
  "three_reply_objects =
     [sub_comment_obj ''r1'' ''P1'' ''T'' ''V1'' ''2024-01-01'' 0,
      sub_comment_obj ''r2'' ''P1'' ''T'' ''V1'' ''2024-01-02'' 1,
      sub_comment_obj ''r3'' ''P1'' ''T'' ''V1'' ''2024-01-03'' 0]"

text \<open>
  Three channels. In \<open>scenario\<close> the first video has two comments without replies and
  the comment fetch of the second is refused for quota. In \<open>reply_quota\<close> the channel
  has two videos, and only the reply fetch for the first thread of the first video is
  refused for quota. In \<open>silent_video\<close> the channel has one video, without comments;
  \<open>silent_run_end\<close> is how a run on it ends, and \<open>one_comment_disk\<close> a disk on which
  that video has a comment.
\<close>

definition scenario :: "nat \<Rightarrow> request \<Rightarrow> outcome" where
  "scenario n req =
     (case req of
        CommentThreads_list v tok \<Rightarrow>
          if v = ''V1'' then
            Ok \<lparr>items = Some [ThreadItem ''c1'' ''first'' ''2024-01-01'' 3 0,
                               ThreadItem ''c2'' ''second'' ''2024-01-02'' 0 0],
                nextPageToken = None\<rparr>
          else if v = ''V2'' then Raise quota_exceeded
          else Ok empty_page
      | _ \<Rightarrow> Ok empty_page)"

definition scenario_videos :: "video list" where
  "scenario_videos =
     [\<lparr>vid = ''V1'', title = ''One''\<rparr>, \<lparr>vid = ''V2'', title = ''Two''\<rparr>,
      \<lparr>vid = ''V3'', title = ''Three''\<rparr>]"

definition scenario_comments :: "json list" where
  "scenario_comments =
     [comment_obj ''first'' ''One'' (create_video_link ''V1'') ''2024-01-01'' 3,
      comment_obj ''second'' ''One'' (create_video_link ''V1'') ''2024-01-02'' 0]"


definition reply_quota :: "nat \<Rightarrow> request \<Rightarrow> outcome" where
  "reply_quota n req =
     (case req of
        Channels_list_id c \<Rightarrow>
          Ok \<lparr>items = Some [ChannelItem ''UCx'' ''UUx''], nextPageToken = None\<rparr>
      | PlaylistItems_list p tok \<Rightarrow>
          Ok \<lparr>items = Some [PlaylistItem ''V1'' ''One'', PlaylistItem ''V2'' ''Two''],
              nextPageToken = None\<rparr>
      | CommentThreads_list v tok \<Rightarrow>
          if v = ''V1'' then
            Ok \<lparr>items = Some [ThreadItem ''P1'' ''first'' ''2024-01-01'' 0 2,
                               ThreadItem ''P2'' ''second'' ''2024-01-02'' 0 1],
                nextPageToken = None\<rparr>
          else Ok \<lparr>items = Some [ThreadItem ''P3'' ''third'' ''2024-01-03'' 0 0],
                    nextPageToken = None\<rparr>
      | Comments_list p tok \<Rightarrow>
          if p = ''P1'' then Raise quota_exceeded
          else Ok \<lparr>items = Some [ReplyItem ''r1'' ''2024-01-04'' 0], nextPageToken = None\<rparr>
      | _ \<Rightarrow> Ok empty_page)"




section \<open>Properties of the gateway\<close>

lemmas run_simps = api_call_with_retry_def CONFIG_retry_attempts_def retry_loop.simps
  api_func_def track_quota_def QUOTA_COSTS_def print_def sleep_def wait_time_def retryable_status_def
  float64_def round_half_even_def ilog2.simps int_too_large_def

lemma QUOTA_COSTS_empty: "QUOTA_COSTS [] = None"
  by (simp add: QUOTA_COSTS_def)

lemma QUOTA_COSTS_nonneg: "QUOTA_COSTS t = Some c \<Longrightarrow> 0 \<le> c"
  by (auto simp: QUOTA_COSTS_def split: if_splits)

lemma op_cost_nonneg: "0 \<le> op_cost t"
  by (cases t) (auto split: option.splits dest: QUOTA_COSTS_nonneg)

lemma retry_loop_done:
  "\<not> a < m \<Longrightarrow> retry_loop E req t m a st = (Inr None, st)"
  by (subst retry_loop.simps) simp

lemma retry_loop_ok:
  "a < m \<Longrightarrow> api E (length (requests st)) req = Ok x \<Longrightarrow>
   retry_loop E req t m a st = (Inr (Some x), charge t (invoked req st))"
  by (subst retry_loop.simps) (simp add: api_func_def charge_def invoked_def split: option.splits)

lemma retry_loop_raise:
  "a < m \<Longrightarrow> api E (length (requests st)) req = Raise e \<Longrightarrow> \<not> retryable e \<Longrightarrow>
   retry_loop E req t m a st = (Inl e, invoked req st)"
  by (subst retry_loop.simps) (cases e; simp add: api_func_def invoked_def)

lemma retry_loop_give_up:
  "a < m \<Longrightarrow> \<not> a < m - 1 \<Longrightarrow> api E (length (requests st)) req = Raise e \<Longrightarrow> retryable e \<Longrightarrow>
   retry_loop E req t m a st = (Inl e, print (Max_retries_exceeded m) (invoked req st))"
  by (subst retry_loop.simps) (cases e; simp add: api_func_def invoked_def)

lemma retry_loop_retry:
  "a < m - 1 \<Longrightarrow> api E (length (requests st)) req = Raise e \<Longrightarrow> retryable e \<Longrightarrow> a < 1024 \<Longrightarrow>
   retry_loop E req t m a st = retry_loop E req t m (a + 1) (backoff E m a (invoked req st))"
  by (subst retry_loop.simps)
     (cases e; auto simp add: api_func_def invoked_def backoff_def Let_def wait_time_def)

lemma retry_loop_overflow:
  "a < m - 1 \<Longrightarrow> api E (length (requests st)) req = Raise e \<Longrightarrow> retryable e \<Longrightarrow> 1024 \<le> a \<Longrightarrow>
   retry_loop E req t m a st = (Inl int_too_large, (invoked req st)\<lparr>draws := draws st + 1\<rparr>)"
  by (subst retry_loop.simps)
     (cases e; auto simp add: api_func_def invoked_def Let_def wait_time_def)

lemma quota_charge: "quota_used (charge t st) = quota_used st + op_cost t"
  by (cases t) (auto simp: charge_def track_quota_def QUOTA_COSTS_empty split: option.splits)

lemma retry_loop_quota:
  "retry_loop E req t m a st = (r, st') \<Longrightarrow>
   quota_used st' = quota_used st + (if returned r then op_cost t else 0)"
proof (induction "m - a" arbitrary: a st)
  case 0
  then show ?case by (auto simp: retry_loop_done)
next
  case (Suc k)
  then have am: "a < m" by simp
  show ?case
  proof (cases "api E (length (requests st)) req")
    case (Ok x)
    with am Suc.prems show ?thesis
      by (auto simp: retry_loop_ok quota_charge invoked_def)
  next
    case (Raise e)
    show ?thesis
    proof (cases "retryable e")
      case False
      with am Raise Suc.prems show ?thesis
        by (auto simp: retry_loop_raise invoked_def)
    next
      case True
      show ?thesis
      proof (cases "a < m - 1")
        case False
        with am Raise True Suc.prems show ?thesis
          by (auto simp: retry_loop_give_up invoked_def print_def)
      next
        case less: True
        show ?thesis
        proof (cases "a < 1024")
          case small: True
          have "k = m - (a + 1)" using Suc.hyps by simp
          moreover have "retry_loop E req t m (a + 1) (backoff E m a (invoked req st)) = (r, st')"
            using retry_loop_retry[OF less Raise True small] Suc.prems by simp
          ultimately have "quota_used st' = quota_used (backoff E m a (invoked req st)) + (if returned r then op_cost t else 0)"
            by (rule Suc.hyps(1))
          then show ?thesis by (simp add: backoff_def sleep_def print_def invoked_def)
        next
          case False
          then have "1024 \<le> a" by simp
          from retry_loop_overflow[OF less Raise True this] Suc.prems show ?thesis
            by (auto simp: invoked_def int_too_large_def)
        qed
      qed
    qed
  qed
qed

lemma api_call_quota:
  "api_call_with_retry E req t n st = (r, st') \<Longrightarrow>
   quota_used st' = quota_used st + (if returned r then op_cost t else 0)"
  unfolding api_call_with_retry_def by (rule retry_loop_quota)

lemma gateway_calls_quota:
  "gateway_calls E cs st = (rs, st') \<Longrightarrow>
   quota_used st' = quota_used st + sum_list (map op_cost (successful cs rs)) \<and> length rs = length cs"
proof (induction cs arbitrary: st rs st')
  case Nil
  then show ?case by (simp add: successful_def)
next
  case (Cons c cs)
  obtain req t where c: "c = (req, t)" by (cases c)
  obtain r st1 where a: "api_call_with_retry E req t None st = (r, st1)" by (cases "api_call_with_retry E req t None st")
  obtain rs1 st2 where g: "gateway_calls E cs st1 = (rs1, st2)" by (cases "gateway_calls E cs st1")
  from Cons.prems c a g have eq: "rs = r # rs1" "st' = st2" by auto
  from Cons.IH[OF g] api_call_quota[OF a] eq c show ?case
    by (auto simp: successful_def)
qed

lemma sum_list_split_kind:
  "sum_list (map f xs) = int (count_list xs k) * f k + sum_list (map f (filter (\<lambda>x. x \<noteq> k) xs))"
  for f :: "'a \<Rightarrow> int"
  by (induction xs) (auto simp: algebra_simps)



subsection \<open>The rounded sum\<close>








text \<open>
  C5. Quota accounting. For an operation kind \<open>k\<close> of the cost table, with cost \<open>c\<close>,
  and any sequence of gateway calls: the counter grows by the number of successful
  calls of kind \<open>k\<close> times \<open>c\<close>, plus what the successful calls of the other kinds cost,
  however the kinds are interleaved. One gateway call adds the cost of its operation
  once when it returns a response and nothing otherwise, and the counter never goes down.
\<close>

theorem quota_accounting:
  assumes "QUOTA_COSTS k = Some c"
    and "gateway_calls E cs st = (rs, st')"
  shows "quota_used st' =
           quota_used st + int (count_list (successful cs rs) (Some k)) * c
             + sum_list (map op_cost (filter (\<lambda>t. t \<noteq> Some k) (successful cs rs)))
         \<and> quota_used st \<le> quota_used st'
         \<and> (\<forall>req t n r st1. api_call_with_retry E req t n st = (r, st1) \<longrightarrow>
               quota_used st1 = quota_used st + (if returned r then op_cost t else 0)
               \<and> quota_used st \<le> quota_used st1)"
proof -
  have total: "quota_used st' = quota_used st + sum_list (map op_cost (successful cs rs))"
    using gateway_calls_quota[OF assms(2)] by simp
  have ck: "op_cost (Some k) = c" using assms(1) by simp
  have "sum_list (map op_cost (successful cs rs)) =
          int (count_list (successful cs rs) (Some k)) * op_cost (Some k)
            + sum_list (map op_cost (filter (\<lambda>t. t \<noteq> Some k) (successful cs rs)))"
    by (rule sum_list_split_kind)
  with total ck have one: "quota_used st' =
           quota_used st + int (count_list (successful cs rs) (Some k)) * c
             + sum_list (map op_cost (filter (\<lambda>t. t \<noteq> Some k) (successful cs rs)))"
    by simp
  have "0 \<le> sum_list (map op_cost (successful cs rs))"
    by (rule sum_list_nonneg) (auto simp: op_cost_nonneg)
  with total have two: "quota_used st \<le> quota_used st'" by simp
  have three: "\<forall>req t n r st1. api_call_with_retry E req t n st = (r, st1) \<longrightarrow>
               quota_used st1 = quota_used st + (if returned r then op_cost t else 0)
               \<and> quota_used st \<le> quota_used st1"
    using api_call_quota op_cost_nonneg by (auto simp del: op_cost.simps)
  from one two three show ?thesis by blast
qed

theorem quota_accounting_witness:
  "QUOTA_COSTS ''search.list'' = Some 100 \<and>
   quota_used (snd (gateway_calls always_ok
     [(Search_list ''a'', Some ''search.list''),
      (Channels_list_id ''b'', Some ''channels.list''),
      (Search_list ''c'', Some ''search.list'')] (start Map.empty)))
   = 0 + int 2 * 100 + 1"
proof -
  define cs where "cs = [(Search_list ''a'', Some ''search.list''),
      (Channels_list_id ''b'', Some ''channels.list''),
      (Search_list ''c'', Some ''search.list'')]"
  define run where "run = gateway_calls always_ok cs (start Map.empty)"
  have h1: "QUOTA_COSTS ''search.list'' = Some 100" by (simp add: QUOTA_COSTS_def)
  have h2: "gateway_calls always_ok cs (start Map.empty) = (fst run, snd run)"
    by (simp add: run_def)
  have rs: "successful cs (fst run) =
              [Some ''search.list'', Some ''channels.list'', Some ''search.list'']"
    by (simp add: run_def cs_def run_simps always_ok_def service_def empty_page_def start_def successful_def)
  have q0: "quota_used (start Map.empty) = 0" by (simp add: start_def)
  from quota_accounting[OF h1 h2]
  have "quota_used (snd run) = 0 + int 2 * 100 + 1"
    unfolding rs q0 by (simp add: QUOTA_COSTS_def)
  with h1 show ?thesis unfolding run_def cs_def by blast
qed





section \<open>Properties of channel resolution\<close>

lemmas resolve_simps = get_channel_id_from_url_def resolve_def service_def simple_urlparse_def
  strip_def startswith_def first_item_def Let_def



lemma resolve_state:
  "resolve E url st = (r, st1) \<Longrightarrow>
   st1 = st \<or>
   (\<exists>req t x. api_call_with_retry E req t None st = (x, st1) \<and>
      (t = Some ''search.list'' \<or> t = Some ''channels.list''))"
  unfolding resolve_def
  by (auto simp: Let_def split: sum.splits if_splits prod.splits)

lemma raises_ValueError:
  "get_channel_id_from_url E url st = (Inl e, st1) \<Longrightarrow> isinstance_ValueError e"
  unfolding get_channel_id_from_url_def
  by (auto split: prod.splits sum.splits if_splits)

lemma get_channel_id_state:
  "get_channel_id_from_url E url st = (r, st1) \<Longrightarrow> \<exists>r'. resolve E url st = (r', st1)"
  unfolding get_channel_id_from_url_def
  by (auto split: prod.splits sum.splits if_splits)

lemma files_charge: "files (charge t st) = files st"
  by (cases t) (auto simp: charge_def track_quota_def)

lemma retry_loop_files:
  "retry_loop E req t m a st = (r, st') \<Longrightarrow> files st' = files st"
proof (induction "m - a" arbitrary: a st)
  case 0
  then show ?case by (auto simp: retry_loop_done)
next
  case (Suc k)
  then have am: "a < m" by simp
  show ?case
  proof (cases "api E (length (requests st)) req")
    case (Ok x)
    with am Suc.prems show ?thesis
      by (auto simp: retry_loop_ok files_charge invoked_def)
  next
    case (Raise e)
    show ?thesis
    proof (cases "retryable e")
      case False
      with am Raise Suc.prems show ?thesis
        by (auto simp: retry_loop_raise invoked_def)
    next
      case True
      show ?thesis
      proof (cases "a < m - 1")
        case False
        with am Raise True Suc.prems show ?thesis
          by (auto simp: retry_loop_give_up invoked_def print_def)
      next
        case less: True
        show ?thesis
        proof (cases "a < 1024")
          case small: True
          have "k = m - (a + 1)" using Suc.hyps by simp
          moreover have "retry_loop E req t m (a + 1) (backoff E m a (invoked req st)) = (r, st')"
            using retry_loop_retry[OF less Raise True small] Suc.prems by simp
          ultimately have "files st' = files (backoff E m a (invoked req st))"
            by (rule Suc.hyps(1))
          then show ?thesis by (simp add: backoff_def sleep_def print_def invoked_def)
        next
          case False
          then have "1024 \<le> a" by simp
          from retry_loop_overflow[OF less Raise True this] Suc.prems show ?thesis
            by (auto simp: invoked_def)
        qed
      qed
    qed
  qed
qed

lemma api_call_files: "api_call_with_retry E req t n st = (r, st') \<Longrightarrow> files st' = files st"
  unfolding api_call_with_retry_def by (rule retry_loop_files)

lemma resolve_quota:
  assumes "resolve E url st = (r, st1)"
  shows "files st1 = files st \<and>
         (quota_used st1 = quota_used st \<or> quota_used st1 = quota_used st + 1
          \<or> quota_used st1 = quota_used st + 100)"
proof -
  from resolve_state[OF assms] consider "st1 = st"
    | req t x where "api_call_with_retry E req t None st = (x, st1)"
        "t = Some ''search.list'' \<or> t = Some ''channels.list''"
    by blast
  then show ?thesis
  proof cases
    case 1
    then show ?thesis by simp
  next
    case 2
    have c: "op_cost t = 100 \<or> op_cost t = 1"
      using 2(2) by (auto simp: QUOTA_COSTS_def)
    from api_call_quota[OF 2(1)] api_call_files[OF 2(1)] c show ?thesis
      by (auto split: if_splits)
  qed
qed

lemma resolve_one_call:
  assumes "resolve E url st = (r, st1)"
  shows "st1 = st \<or>
         (\<exists>req t x. api_call_with_retry E req t None st = (x, st1) \<and>
            (t = Some ''search.list'' \<and> op_cost t = 100 \<or>
             t = Some ''channels.list'' \<and> op_cost t = 1) \<and>
            quota_used st1 = quota_used st + (if returned x then op_cost t else 0))"
proof -
  from resolve_state[OF assms] consider "st1 = st"
    | req t x where "api_call_with_retry E req t None st = (x, st1)"
        "t = Some ''search.list'' \<or> t = Some ''channels.list''"
    by blast
  then show ?thesis
  proof cases
    case 1
    then show ?thesis by simp
  next
    case 2
    have c: "t = Some ''search.list'' \<and> op_cost t = 100 \<or>
             t = Some ''channels.list'' \<and> op_cost t = 1"
      using 2(2) by (auto simp: QUOTA_COSTS_def)
    from api_call_quota[OF 2(1)] 2(1) c show ?thesis by blast
  qed
qed

text \<open>
  C9. \<^verbatim>\<open>get_channel_id_from_url\<close> returns a channel id or raises a \<open>ValueError\<close>
  (an instance of it, as \<^verbatim>\<open>isinstance\<close> decides): whatever else is raised during
  resolution, a failure of the service included, is raised again as
  \<open>ValueError\<close> with the message \<^verbatim>\<open>Error parsing URL: ...\<close>.
\<close>

theorem only_ValueError_escapes:
  "(case fst (get_channel_id_from_url E url st) of
      Inr channel_id \<Rightarrow> True
    | Inl e \<Rightarrow> isinstance_ValueError e) \<and>
   (\<forall>e st1. resolve E url st = (Inl e, st1) \<and> \<not> isinstance_ValueError e \<longrightarrow>
      get_channel_id_from_url E url st
        = (Inl (ValueError (''Error parsing URL: '' @ str_exn e)), st1))"
proof -
  have a: "case fst (get_channel_id_from_url E url st) of
             Inr channel_id \<Rightarrow> True
           | Inl e \<Rightarrow> isinstance_ValueError e"
    using raises_ValueError[of E url st _ "snd (get_channel_id_from_url E url st)"]
    by (cases "fst (get_channel_id_from_url E url st)") (auto simp: prod_eq_iff)
  have b: "\<forall>e st1. resolve E url st = (Inl e, st1) \<and> \<not> isinstance_ValueError e \<longrightarrow>
      get_channel_id_from_url E url st
        = (Inl (ValueError (''Error parsing URL: '' @ str_exn e)), st1)"
    by (simp add: get_channel_id_from_url_def)
  from a b show ?thesis by blast
qed

theorem only_ValueError_escapes_witness:
  "resolve (service (\<lambda>n req. Raise forbidden)) ''https://www.youtube.com/@nobody''
     (start Map.empty)
     = (Inl forbidden, (start Map.empty)\<lparr>requests := [Search_list ''@nobody'']\<rparr>) \<and>
   \<not> isinstance_ValueError forbidden \<and>
   get_channel_id_from_url (service (\<lambda>n req. Raise forbidden))
     ''https://www.youtube.com/@nobody'' (start Map.empty)
     = (Inl (ValueError (''Error parsing URL: '' @ str_exn forbidden)),
        (start Map.empty)\<lparr>requests := [Search_list ''@nobody'']\<rparr>)"
proof -
  have h1: "resolve (service (\<lambda>n req. Raise forbidden)) ''https://www.youtube.com/@nobody''
     (start Map.empty)
     = (Inl forbidden, (start Map.empty)\<lparr>requests := [Search_list ''@nobody'']\<rparr>)"
    by (simp add: resolve_simps run_simps forbidden_def start_def)
  have h2: "\<not> isinstance_ValueError forbidden" by (simp add: forbidden_def)
  from only_ValueError_escapes[of "service (\<lambda>n req. Raise forbidden)"
         "''https://www.youtube.com/@nobody''" "start Map.empty"] h1 h2
  show ?thesis by blast
qed





text \<open>
  C7, as the code has it. When channel resolution fails, the run ends with
  \<^verbatim>\<open>exit(1)\<close> right after reporting the error, the disk untouched. By then either
  nothing was called and the state, the quota counter with it, is as it was; or exactly
  one gateway call was made, a search (cost 100) or a channel lookup (cost 1), and the
  counter has grown by that cost if the call returned a response and by nothing if it
  raised. So the growth is 0, 1 or 100, and it is 0 unless the resolution call returned.
\<close>

theorem resolution_failure_aborts:
  assumes "get_channel_id_from_url E url st = (Inl e, st1)"
  shows "main E url st = Some (Exit 1, print (Resolution_error (str_exn e)) st1) \<and>
         files st1 = files st \<and>
         (quota_used st1 = quota_used st \<or> quota_used st1 = quota_used st + 1
          \<or> quota_used st1 = quota_used st + 100) \<and>
         (st1 = st \<or>
          (\<exists>req t x. api_call_with_retry E req t None st = (x, st1) \<and>
             (t = Some ''search.list'' \<and> op_cost t = 100 \<or>
              t = Some ''channels.list'' \<and> op_cost t = 1) \<and>
             quota_used st1 = quota_used st + (if returned x then op_cost t else 0)))"
proof -
  have v: "isinstance_ValueError e" using assms by (rule raises_ValueError)
  have m: "main E url st = Some (Exit 1, print (Resolution_error (str_exn e)) st1)"
    using assms v by (simp add: main_def)
  from get_channel_id_state[OF assms] obtain r' where r: "resolve E url st = (r', st1)" by blast
  from resolve_quota[OF r] resolve_one_call[OF r] m show ?thesis by blast
qed

theorem resolution_failure_aborts_witness:
  "main (service (\<lambda>n req. Ok empty_page)) nobody_url (start Map.empty)
     = Some (Exit 1,
             print (Resolution_error ''Channel not found for handle: @nobody'')
               ((start Map.empty)\<lparr>quota_used := 100, requests := [Search_list ''@nobody'']\<rparr>)) \<and>
   main (service (\<lambda>n req. Raise forbidden)) nobody_url (start Map.empty)
     = Some (Exit 1,
             print (Resolution_error ''Error parsing URL: HttpError 403'')
               ((start Map.empty)\<lparr>requests := [Search_list ''@nobody'']\<rparr>)) \<and>
   main (service (\<lambda>n req. Ok empty_page)) ''https://example.com/@nobody'' (start Map.empty)
     = Some (Exit 1,
             print (Resolution_error ''Invalid YouTube URL: https://example.com/@nobody'')
               (start Map.empty))"
proof -
  have h1: "get_channel_id_from_url (service (\<lambda>n req. Ok empty_page)) nobody_url (start Map.empty)
     = (Inl (ValueError ''Channel not found for handle: @nobody''),
        (start Map.empty)\<lparr>quota_used := 100, requests := [Search_list ''@nobody'']\<rparr>)"
    by (simp add: resolve_simps run_simps empty_page_def start_def nobody_url_def)
  have h2: "get_channel_id_from_url (service (\<lambda>n req. Raise forbidden)) nobody_url (start Map.empty)
     = (Inl (ValueError ''Error parsing URL: HttpError 403''),
        (start Map.empty)\<lparr>requests := [Search_list ''@nobody'']\<rparr>)"
    by (simp add: resolve_simps run_simps forbidden_def start_def nobody_url_def)
  have h3: "get_channel_id_from_url (service (\<lambda>n req. Ok empty_page))
              ''https://example.com/@nobody'' (start Map.empty)
     = (Inl (ValueError ''Invalid YouTube URL: https://example.com/@nobody''), start Map.empty)"
    by (simp add: resolve_simps)
  from resolution_failure_aborts[OF h1] resolution_failure_aborts[OF h2]
       resolution_failure_aborts[OF h3]
  show ?thesis by simp
qed

text \<open>
  C7 as stated fails: a handle that the search does not find costs the 100 units of the
  search before the run aborts.
\<close>

theorem resolution_failure_costs_quota:
  "main (service (\<lambda>n req. Ok empty_page)) ''https://www.youtube.com/@nobody'' (start Map.empty)
     = Some (Exit 1,
             \<lparr>quota_used = 100, requests = [Search_list ''@nobody''], draws = 0, slept = [],
              out = [Resolution_error ''Channel not found for handle: @nobody''],
              files = Map.empty\<rparr>)"
  by (simp add: main_def resolve_simps run_simps empty_page_def start_def)


section \<open>Properties of the state store\<close>

text \<open>
  A missing file, a file that is not JSON and a list with a dict that lacks
  \<^verbatim>\<open>videoLink\<close> all give the empty state, the last two with a warning.
\<close>

lemma load_state_degrades:
  "files st f = None \<Longrightarrow> load_state f st = (Inr ({}, JList []), st)"
  "files st f = Some (Not_json m) \<Longrightarrow>
     load_state f st = (Inr ({}, JList []), print (Warning_parse_comments m) st)"
  "files st f = Some (Content (JList cs)) \<Longrightarrow> video_links cs = Inl (KeyError k) \<Longrightarrow>
     load_state f st = (Inr ({}, JList []), print (Warning_parse_comments k) st)"
  by (simp_all add: load_state_def)


text \<open>
  C4 fails on the code: a comments file holding valid JSON of another shape, here the
  list \<^verbatim>\<open>[1]\<close>, makes \<^verbatim>\<open>load_state\<close> raise a \<open>TypeError\<close>, which its handler for
  \<open>JSONDecodeError\<close> and \<open>KeyError\<close> lets through; the run ends with
  \<^verbatim>\<open>exit(1)\<close> instead of starting afresh.
\<close>

theorem load_state_wrong_shape_escapes:
  "load_state ''output/UCx_comments.json'' (start wrong_shape_disk)
     = (Inl (TypeError ''object is not subscriptable''), start wrong_shape_disk) \<and>
   main (service (\<lambda>n req. Ok empty_page)) ''https://www.youtube.com/channel/UCx''
     (start wrong_shape_disk)
     = Some (Exit 1,
             \<lparr>quota_used = 0, requests = [], draws = 0, slept = [],
              out = [Processing_channel ''UCx'',
                     Unexpected_error ''object is not subscriptable''],
              files = wrong_shape_disk\<rparr>)"
proof -
  have a: "load_state ''output/UCx_comments.json'' (start wrong_shape_disk)
     = (Inl (TypeError ''object is not subscriptable''), start wrong_shape_disk)"
    by (simp add: load_state_def start_def wrong_shape_disk_def)
  have b: "get_channel_id_from_url (service (\<lambda>n req. Ok empty_page))
             ''https://www.youtube.com/channel/UCx'' (start wrong_shape_disk)
           = (Inr ''UCx'', start wrong_shape_disk)"
    by (simp add: resolve_simps)
  have c: "load_state ''output/UCx_comments.json''
             (print (Processing_channel ''UCx'') (start wrong_shape_disk))
     = (Inl (TypeError ''object is not subscriptable''),
        print (Processing_channel ''UCx'') (start wrong_shape_disk))"
    by (simp add: load_state_def start_def wrong_shape_disk_def print_def)
  have "main (service (\<lambda>n req. Ok empty_page)) ''https://www.youtube.com/channel/UCx''
     (start wrong_shape_disk)
     = Some (unexpected (TypeError ''object is not subscriptable'')
               (print (Processing_channel ''UCx'') (start wrong_shape_disk)))"
    by (simp add: main_def b CONFIG_output_dir_def c)
  then show ?thesis using a by (simp add: unexpected_def print_def start_def)
qed

section \<open>Properties of the extraction loop\<close>

lemmas fetch_simps = fetch_comment_replies_def replies_loop.simps fetch_video_comments_def
  comments_loop.simps response_items_def next_page_def


lemma comments_loop_files:
  assumes "comments_loop E video_id video_title video_link tok acc st = Some y"
  shows "files (snd y) = files st"
proof (rule comments_loop.raw_induct
         [where P = "\<lambda>E video_id video_title video_link tok acc st y. files (snd y) = files st",
          OF _ assms], goal_cases)
  case (1 loop E video_id video_title video_link tok acc st y)
  obtain r st1 where a: "api_call_with_retry E (CommentThreads_list video_id tok)
      (Some ''commentThreads.list'') None st = (r, st1)"
    by (cases "api_call_with_retry E (CommentThreads_list video_id tok)
      (Some ''commentThreads.list'') None st")
  have f: "files st1 = files st" using a by (rule api_call_files)
  from 1(2) a show ?case
    by (auto simp: f split: sum.splits option.splits dest!: 1(1))
qed

lemma replies_loop_files:
  assumes "replies_loop E parent video_title video_id tok acc st = Some y"
  shows "files (snd y) = files st"
proof (rule replies_loop.raw_induct
         [where P = "\<lambda>E parent video_title video_id tok acc st y. files (snd y) = files st",
          OF _ assms], goal_cases)
  case (1 loop E parent video_title video_id tok acc st y)
  obtain r st1 where a: "api_call_with_retry E (Comments_list parent tok)
      (Some ''comments.list'') None st = (r, st1)"
    by (cases "api_call_with_retry E (Comments_list parent tok)
      (Some ''comments.list'') None st")
  have f: "files st1 = files st" using a by (rule api_call_files)
  from 1(2) a show ?case
    by (auto simp: f split: sum.splits option.splits dest!: 1(1))
qed

lemma fetch_video_comments_files:
  "fetch_video_comments E video_id video_title video_link st = Some (r, st') \<Longrightarrow>
   files st' = files st"
  unfolding fetch_video_comments_def by (drule comments_loop_files) simp

lemma fetch_comment_replies_files:
  "fetch_comment_replies E parent video_title video_id st = Some (r, st') \<Longrightarrow>
   files st' = files st"
  unfolding fetch_comment_replies_def
  by (auto simp: print_def split: option.splits sum.splits if_splits prod.splits
           dest!: replies_loop_files)

lemma replies_for_threads_files:
  "replies_for_threads E video_id video_title video_link ps subs failed st = Some (subs', failed', st')
   \<Longrightarrow> files st' = files st"
proof (induction ps arbitrary: subs failed st)
  case Nil
  then show ?case by simp
next
  case (Cons p ps)
  obtain parent n where p: "p = (parent, n)" by (cases p)
  from Cons.prems show ?case
    unfolding p
    by (auto split: option.splits sum.splits prod.splits
             dest!: Cons.IH fetch_comment_replies_files)
qed

lemma replies_for_threads_append:
  "replies_for_threads E video_id video_title video_link (ps @ qs) subs failed st =
     (case replies_for_threads E video_id video_title video_link ps subs failed st of
        None \<Rightarrow> None
      | Some (subs1, failed1, st1) \<Rightarrow>
          replies_for_threads E video_id video_title video_link qs subs1 failed1 st1)"
proof (induction ps arbitrary: subs failed st)
  case Nil
  then show ?case by simp
next
  case (Cons p ps)
  obtain parent n where p: "p = (parent, n)" by (cases p)
  show ?case unfolding p
    by (simp add: Cons.IH split: option.splits sum.splits prod.splits)
qed

lemma process_video_merges:
  assumes "fetch_video_comments E (vid v) (title v) (create_video_link (vid v)) sa
             = Some (Inr (new_comments, threads), sb)"
    and "replies_for_threads E (vid v) (title v) (create_video_link (vid v)) threads []
             (failed_reply_fetches L) sb = Some (new_subs, failed', sc)"
    and "master_comments_list L = JList cs"
    and "master_sub_comments_list L = JList ss"
  shows "process_video E cf sf v L sa =
           Some (Next,
                 \<lparr>master_comments_list = JList (cs @ new_comments),
                  master_sub_comments_list = JList (ss @ new_subs),
                  failed_reply_fetches = failed'\<rparr>,
                 atomic_write_json sf (JList (ss @ new_subs))
                   (atomic_write_json cf (JList (cs @ new_comments)) sc))"
  using assms by (simp add: process_video_def Let_def)


text \<open>Every thread that \<^verbatim>\<open>fetch_video_comments\<close> notes has a positive reply count.\<close>

lemma thread_items_positive:
  "thread_items video_title video_link its acc = Inr acc1 \<Longrightarrow>
   \<forall>p\<in>set (snd acc). 0 < snd p \<Longrightarrow> \<forall>p\<in>set (snd acc1). 0 < snd p"
proof (induction video_title video_link its acc arbitrary: acc1 rule: thread_items.induct)
  case (1 video_title video_link acc)
  then show ?case by simp
next
  case (2 video_title video_link parent_comment_id comment_text date_posted likes_count
          total_reply_count rest comments_list threads_with_replies)
  show ?case
    by (rule "2.IH"[OF "2.prems"(1)[unfolded thread_items.simps]]) (use "2.prems"(2) in auto)
qed simp_all

lemma comments_loop_positive:
  assumes "comments_loop E video_id video_title video_link tok acc st = Some y"
  shows "(\<forall>p\<in>set (snd acc). 0 < snd p) \<longrightarrow>
         (case fst y of Inl e \<Rightarrow> True | Inr acc1 \<Rightarrow> \<forall>p\<in>set (snd acc1). 0 < snd p)"
proof (rule comments_loop.raw_induct
         [where P = "\<lambda>E video_id video_title video_link tok acc st y.
            (\<forall>p\<in>set (snd acc). 0 < snd p) \<longrightarrow>
            (case fst y of Inl e \<Rightarrow> True | Inr acc1 \<Rightarrow> \<forall>p\<in>set (snd acc1). 0 < snd p)",
          OF _ assms], goal_cases)
  case (1 loop E video_id video_title video_link tok acc st y)
  obtain r st1 where a: "api_call_with_retry E (CommentThreads_list video_id tok)
      (Some ''commentThreads.list'') None st = (r, st1)"
    by (cases "api_call_with_retry E (CommentThreads_list video_id tok)
      (Some ''commentThreads.list'') None st")
  show ?case
  proof
    assume pos: "\<forall>p\<in>set (snd acc). 0 < snd p"
    from 1(2) a pos show
      "case fst y of Inl e \<Rightarrow> True | Inr acc1 \<Rightarrow> \<forall>p\<in>set (snd acc1). 0 < snd p"
      by (auto split: sum.splits option.splits
               dest!: 1(1) thread_items_positive) force
  qed
qed

lemma fetch_video_comments_positive:
  "fetch_video_comments E video_id video_title video_link st = Some (Inr (cs, ts), st') \<Longrightarrow>
   (parent, expected) \<in> set ts \<Longrightarrow> 0 < expected"
  unfolding fetch_video_comments_def
  by (drule comments_loop_positive) auto


text \<open>
  C8. Discrepancy detection. When the reply loop reaches a pointer with expected count
  \<open>E > 0\<close> (the only pointers \<^verbatim>\<open>fetch_video_comments\<close> notes, as shown above) and the fetch for it
  contributes \<open>F\<close> replies, none when it raised: if \<open>F = E\<close> nothing is recorded, and if
  \<open>F \<noteq> E\<close> exactly one record is appended, with expected count \<open>E\<close>, fetched count
  \<open>F\<close> and missing count \<open>E - F\<close>, the error string attached exactly when the fetch
  raised. The video is not failed: whatever was recorded, its comments and replies are
  merged into the master lists and both files are written.
\<close>

theorem discrepancy_detection:
  assumes "replies_for_threads E video_id video_title video_link ps subs failed st
             = Some (subs1, failed1, st1)"
    and "fetch_comment_replies E parent video_title video_id st1 = Some (r, st2)"
    and "0 < expected"
    and "F = int (length (fetched r))"
  shows "(\<exists>failed2.
            replies_for_threads E video_id video_title video_link (ps @ [(parent, expected)])
               subs failed st
             = Some (subs1 @ fetched r, failed2, st2) \<and>
            (F = expected \<longrightarrow> failed2 = failed1) \<and>
            (F \<noteq> expected \<longrightarrow>
               (\<exists>d. failed2 = failed1 @ [d] \<and>
                  subscript d ''parent_comment_id'' = Inr (JStr parent) \<and>
                  subscript d ''expected_count'' = Inr (JInt expected) \<and>
                  subscript d ''fetched_count'' = Inr (JInt F) \<and>
                  subscript d ''missing_count'' = Inr (JInt (expected - F)) \<and>
                  (case r of
                     Inr replies \<Rightarrow> subscript d ''error'' = Inl (KeyError ''error'')
                   | Inl e \<Rightarrow> subscript d ''error'' = Inr (JStr (str_exn e)))))) \<and>
         (\<forall>v L cf sf cs ss new_comments threads new_subs failed' sa sb sc.
            fetch_video_comments E (vid v) (title v) (create_video_link (vid v)) sa
              = Some (Inr (new_comments, threads), sb) \<and>
            replies_for_threads E (vid v) (title v) (create_video_link (vid v)) threads []
              (failed_reply_fetches L) sb = Some (new_subs, failed', sc) \<and>
            master_comments_list L = JList cs \<and> master_sub_comments_list L = JList ss \<longrightarrow>
            process_video E cf sf v L sa =
              Some (Next,
                    \<lparr>master_comments_list = JList (cs @ new_comments),
                     master_sub_comments_list = JList (ss @ new_subs),
                     failed_reply_fetches = failed'\<rparr>,
                    atomic_write_json sf (JList (ss @ new_subs))
                      (atomic_write_json cf (JList (cs @ new_comments)) sc)))"
proof -
  have one: "\<exists>failed2.
            replies_for_threads E video_id video_title video_link (ps @ [(parent, expected)])
               subs failed st
             = Some (subs1 @ fetched r, failed2, st2) \<and>
            (F = expected \<longrightarrow> failed2 = failed1) \<and>
            (F \<noteq> expected \<longrightarrow>
               (\<exists>d. failed2 = failed1 @ [d] \<and>
                  subscript d ''parent_comment_id'' = Inr (JStr parent) \<and>
                  subscript d ''expected_count'' = Inr (JInt expected) \<and>
                  subscript d ''fetched_count'' = Inr (JInt F) \<and>
                  subscript d ''missing_count'' = Inr (JInt (expected - F)) \<and>
                  (case r of
                     Inr replies \<Rightarrow> subscript d ''error'' = Inl (KeyError ''error'')
                   | Inl e \<Rightarrow> subscript d ''error'' = Inr (JStr (str_exn e)))))"
  proof (cases r)
    case (Inr replies)
    with assms show ?thesis
      by (simp add: replies_for_threads_append count_mismatch_def)
  next
    case (Inl e)
    with assms show ?thesis
      by (simp add: replies_for_threads_append fetch_failure_def)
  qed
  from one process_video_merges show ?thesis by blast
qed

theorem discrepancy_detection_witness:
  "(\<exists>d. replies_for_threads (service five_expected) ''V1'' ''T'' (create_video_link ''V1'')
          ([] @ [(''P1'', 5)]) [] [] (start Map.empty)
        = Some ([] @ three_reply_objects, [] @ [d],
                (start Map.empty)\<lparr>quota_used := 1, requests := [Comments_list ''P1'' None]\<rparr>) \<and>
        subscript d ''expected_count'' = Inr (JInt 5) \<and>
        subscript d ''fetched_count'' = Inr (JInt 3) \<and>
        subscript d ''missing_count'' = Inr (JInt (5 - 3))) \<and>
   process_video (service five_expected) ''c.json'' ''s.json'' \<lparr>vid = ''V1'', title = ''T''\<rparr>
     \<lparr>master_comments_list = JList [], master_sub_comments_list = JList [],
      failed_reply_fetches = []\<rparr> (start Map.empty)
   = Some (Next,
           \<lparr>master_comments_list =
              JList ([] @ [comment_obj ''hello'' ''T'' (create_video_link ''V1'') ''2024-01-01'' 2]),
            master_sub_comments_list = JList ([] @ three_reply_objects),
            failed_reply_fetches =
              [count_mismatch ''P1'' ''V1'' ''T'' (create_video_link ''V1'') 5 3]\<rparr>,
           atomic_write_json ''s.json'' (JList ([] @ three_reply_objects))
             (atomic_write_json ''c.json''
                (JList ([] @ [comment_obj ''hello'' ''T'' (create_video_link ''V1'') ''2024-01-01'' 2]))
                ((start Map.empty)\<lparr>quota_used := 2,
                   requests := [CommentThreads_list ''V1'' None, Comments_list ''P1'' None]\<rparr>)))"
proof -
  let ?E = "service five_expected"
  let ?st = "start Map.empty"
  let ?link = "create_video_link ''V1''"
  let ?st2 = "?st\<lparr>quota_used := 1, requests := [Comments_list ''P1'' None]\<rparr>"
  let ?sb = "?st\<lparr>quota_used := 1, requests := [CommentThreads_list ''V1'' None]\<rparr>"
  let ?sc = "?st\<lparr>quota_used := 2,
                   requests := [CommentThreads_list ''V1'' None, Comments_list ''P1'' None]\<rparr>"
  let ?c = "comment_obj ''hello'' ''T'' ?link ''2024-01-01'' 2"
  let ?d = "count_mismatch ''P1'' ''V1'' ''T'' ?link 5 3"
  let ?L = "\<lparr>master_comments_list = JList [], master_sub_comments_list = JList [],
             failed_reply_fetches = []\<rparr>"
  let ?v = "\<lparr>vid = ''V1'', title = ''T''\<rparr>"
  have h1: "replies_for_threads ?E ''V1'' ''T'' ?link [] [] [] ?st = Some ([], [], ?st)"
    by simp
  have h2: "fetch_comment_replies ?E ''P1'' ''T'' ''V1'' ?st
              = Some (Inr three_reply_objects, ?st2)"
    by (simp add: fetch_simps service_def five_expected_def three_replies_def run_simps
          start_def three_reply_objects_def)
  have h3: "(0::int) < 5" by simp
  have h4: "(3::int) = int (length (fetched (Inr three_reply_objects :: exn + json list)))"
    by (simp add: three_reply_objects_def)
  have h5: "fetch_video_comments ?E (vid ?v) (title ?v) (create_video_link (vid ?v)) ?st
              = Some (Inr ([?c], [(''P1'', 5)]), ?sb)"
    by (simp add: fetch_simps service_def five_expected_def run_simps start_def)
  have h6: "replies_for_threads ?E (vid ?v) (title ?v) (create_video_link (vid ?v))
              [(''P1'', 5)] [] (failed_reply_fetches ?L) ?sb
              = Some (three_reply_objects, [?d], ?sc)"
    by (simp add: fetch_simps service_def five_expected_def three_replies_def run_simps
          start_def three_reply_objects_def)
  have h7: "master_comments_list ?L = JList []" "master_sub_comments_list ?L = JList []"
    by simp_all
  note t = discrepancy_detection[OF h1 h2 h3 h4]
  from t have a: "\<exists>d. replies_for_threads ?E ''V1'' ''T'' ?link ([] @ [(''P1'', 5)]) [] [] ?st
                    = Some ([] @ three_reply_objects, [] @ [d], ?st2) \<and>
        subscript d ''expected_count'' = Inr (JInt 5) \<and>
        subscript d ''fetched_count'' = Inr (JInt 3) \<and>
        subscript d ''missing_count'' = Inr (JInt (5 - 3))"
    by (auto simp del: replies_for_threads.simps)
  from t h5 h6 h7 have b: "process_video ?E ''c.json'' ''s.json'' ?v ?L ?st =
      Some (Next,
            \<lparr>master_comments_list = JList ([] @ [?c]),
             master_sub_comments_list = JList ([] @ three_reply_objects),
             failed_reply_fetches = [?d]\<rparr>,
            atomic_write_json ''s.json'' (JList ([] @ three_reply_objects))
              (atomic_write_json ''c.json'' (JList ([] @ [?c])) ?sc))"
    by blast
  from a b show ?thesis by blast
qed

lemma file_names_differ:
  "x @ ''_comments.json'' \<noteq> x @ ''_sub_comments.json''"
  by simp

lemma quota_exceeded_stop_lists:
  "quota_exceeded_stop
     \<lparr>master_comments_list = JList cs, master_sub_comments_list = JList ss,
      failed_reply_fetches = fs\<rparr> st =
   (Break,
    st\<lparr>out := out st @ [Quota_exceeded_stopping, Processed_so_far (length cs) (length ss),
                        Quota_used (quota_used st) CONFIG_daily_quota_limit,
                        Run_again_to_resume]\<rparr>)"
  by (simp add: quota_exceeded_stop_def print_def Let_def)


text \<open>
  C1. The scenario: the worklist is \<open>[V1, V2, V3]\<close>, the comment fetch of \<open>V1\<close> gives
  two comments and no thread with replies, and the comment fetch of \<open>V2\<close> raises an
  \<open>HttpError\<close> with reason \<open>quotaExceeded\<close>. Then the loop stops there: the state at
  the end is the one \<open>V2\<close>'s failed fetch left, with only messages added, so nothing is
  requested for \<open>V3\<close>; the comments file holds the master list as it was plus the two
  comments of \<open>V1\<close>, exactly these two on a fresh start; and the messages are the
  graceful stop with the quota used, then the completion summary.
\<close>

theorem quota_exhausted_stops_run:
  assumes "videos_to_process all_videos processed = [V1, V2, V3]"
    and "comments_file = CONFIG_output_dir @ ''/'' @ channel_id @ ''_comments.json''"
    and "sub_comments_file = CONFIG_output_dir @ ''/'' @ channel_id @ ''_sub_comments.json''"
    and "fetch_video_comments E (vid V1) (title V1) (create_video_link (vid V1))
           (print (Videos_already_processed (length all_videos - 3))
              (print (Videos_to_process 3) st))
         = Some (Inr (cs, []), st1)"
    and "length cs = 2"
    and "fetch_video_comments E (vid V2) (title V2) (create_video_link (vid V2))
           (atomic_write_json sub_comments_file (JList ss)
              (atomic_write_json comments_file (JList (m0 @ cs)) st1))
         = Some (Inl (HttpError status (Some ''quotaExceeded'') msg), st2)"
  shows "extraction E channel_id all_videos processed (JList m0) (JList ss) st
         = Some (Finished,
                 st2\<lparr>out := out st2 @
                    [Quota_exceeded_stopping,
                     Processed_so_far (length m0 + 2) (length ss),
                     Quota_used (quota_used st2) CONFIG_daily_quota_limit,
                     Run_again_to_resume,
                     Processing_complete,
                     Total_comments (length m0 + 2),
                     Total_sub_comments (length ss),
                     Quota_usage (quota_used st2) CONFIG_daily_quota_limit
                       (CONFIG_daily_quota_limit - quota_used st2)]\<rparr>) \<and>
         files st2 comments_file = Some (Content (JList (m0 @ cs))) \<and>
         files st2 sub_comments_file = Some (Content (JList ss))"
proof -
  let ?st0 = "print (Videos_already_processed (length all_videos - 3))
                (print (Videos_to_process 3) st)"
  let ?L0 = "\<lparr>master_comments_list = JList m0, master_sub_comments_list = JList ss,
              failed_reply_fetches = []\<rparr>"
  let ?L1 = "\<lparr>master_comments_list = JList (m0 @ cs), master_sub_comments_list = JList ss,
              failed_reply_fetches = []\<rparr>"
  let ?st1' = "atomic_write_json sub_comments_file (JList ss)
                 (atomic_write_json comments_file (JList (m0 @ cs)) st1)"
  let ?st3 = "st2\<lparr>out := out st2 @ [Quota_exceeded_stopping,
                        Processed_so_far (length (m0 @ cs)) (length ss),
                        Quota_used (quota_used st2) CONFIG_daily_quota_limit,
                        Run_again_to_resume]\<rparr>"
  have p1: "process_video E comments_file sub_comments_file V1 ?L0 ?st0 = Some (Next, ?L1, ?st1')"
    using assms(4) by (simp add: process_video_def Let_def)
  have p2: "process_video E comments_file sub_comments_file V2 ?L1 ?st1' = Some (Break, ?L1, ?st3)"
    using assms(6) by (simp add: process_video_def Let_def quota_exceeded_stop_lists)
  have loop: "extraction_loop E comments_file sub_comments_file [V1, V2, V3] ?L0 ?st0
                = Some (None, ?L1, ?st3)"
    by (simp add: p1 p2)
  have fin: "finish channel_id ?L1 ?st3 =
               (None, ?st3\<lparr>out := out ?st3 @
                  [Processing_complete, Total_comments (length (m0 @ cs)),
                   Total_sub_comments (length ss),
                   Quota_usage (quota_used st2) CONFIG_daily_quota_limit
                     (CONFIG_daily_quota_limit - quota_used st2)]\<rparr>)"
    by (simp add: finish_def print_def Let_def)
  have run: "extraction E channel_id all_videos processed (JList m0) (JList ss) st
         = Some (Finished, ?st3\<lparr>out := out ?st3 @
                  [Processing_complete, Total_comments (length (m0 @ cs)),
                   Total_sub_comments (length ss),
                   Quota_usage (quota_used st2) CONFIG_daily_quota_limit
                     (CONFIG_daily_quota_limit - quota_used st2)]\<rparr>)"
    unfolding extraction_def Let_def assms(1) assms(2)[symmetric] assms(3)[symmetric]
    using loop fin by (simp add: numeral_3_eq_3 del: extraction_loop.simps)
  have ne: "comments_file \<noteq> sub_comments_file"
    unfolding assms(2,3) by simp
  have f: "files st2 = files ?st1'"
    using assms(6) by (rule fetch_video_comments_files)
  have f1: "files st2 comments_file = Some (Content (JList (m0 @ cs)))"
    unfolding f using ne by (simp add: atomic_write_json_def)
  have f2: "files st2 sub_comments_file = Some (Content (JList ss))"
    unfolding f by (simp add: atomic_write_json_def)
  from run f1 f2 assms(5) show ?thesis by simp
qed

lemmas main_simps = main_def resolve_simps load_state_def load_sub_comments_def
  resumption_status_def list_videos_def get_uploads_playlist_id_def
  get_all_video_ids_and_titles_def videos_loop.simps
  extraction_def videos_to_process_def process_video_def fetch_simps
  run_simps start_def quota_exceeded_def empty_page_def quota_exceeded_stop_def finish_def
  atomic_write_json_def CONFIG_output_dir_def CONFIG_daily_quota_limit_def
  create_video_link_def unexpected_def

theorem quota_exhausted_stops_run_witness:
  "extraction (service scenario) ''UCx'' scenario_videos {} (JList []) (JList [])
     (start Map.empty)
   = Some (Finished,
           \<lparr>quota_used = 1,
            requests = [CommentThreads_list ''V1'' None, CommentThreads_list ''V2'' None],
            draws = 0, slept = [],
            out = [Videos_to_process 3, Videos_already_processed 0,
                   Quota_exceeded_stopping, Processed_so_far 2 0, Quota_used 1 10000,
                   Run_again_to_resume, Processing_complete, Total_comments 2,
                   Total_sub_comments 0, Quota_usage 1 10000 9999],
            files = [''output/UCx_comments.json'' \<mapsto> Content (JList scenario_comments),
                     ''output/UCx_sub_comments.json'' \<mapsto> Content (JList [])]\<rparr>)"
proof -
  let ?E = "service scenario"
  let ?cf = "CONFIG_output_dir @ ''/'' @ ''UCx'' @ ''_comments.json''"
  let ?sf = "CONFIG_output_dir @ ''/'' @ ''UCx'' @ ''_sub_comments.json''"
  let ?V1 = "\<lparr>vid = ''V1'', title = ''One''\<rparr>"
  let ?V2 = "\<lparr>vid = ''V2'', title = ''Two''\<rparr>"
  let ?V3 = "\<lparr>vid = ''V3'', title = ''Three''\<rparr>"
  let ?s0 = "print (Videos_already_processed (length scenario_videos - 3))
               (print (Videos_to_process 3) (start Map.empty))"
  let ?s1 = "?s0\<lparr>quota_used := 1, requests := [CommentThreads_list ''V1'' None]\<rparr>"
  let ?s1' = "atomic_write_json ?sf (JList [])
                (atomic_write_json ?cf (JList ([] @ scenario_comments)) ?s1)"
  let ?s2 = "?s1'\<lparr>requests := [CommentThreads_list ''V1'' None,
                                   CommentThreads_list ''V2'' None]\<rparr>"
  have h1: "videos_to_process scenario_videos {} = [?V1, ?V2, ?V3]"
    by (simp add: videos_to_process_def scenario_videos_def)
  have h4: "fetch_video_comments ?E (vid ?V1) (title ?V1) (create_video_link (vid ?V1)) ?s0
              = Some (Inr (scenario_comments, []), ?s1)"
    by (simp add: fetch_simps service_def scenario_def run_simps start_def
          scenario_comments_def)
  have h5: "length scenario_comments = 2" by (simp add: scenario_comments_def)
  have h6: "fetch_video_comments ?E (vid ?V2) (title ?V2) (create_video_link (vid ?V2)) ?s1'
              = Some (Inl (HttpError 403 (Some ''quotaExceeded'') ''quota exceeded''), ?s2)"
    by (simp add: fetch_simps service_def scenario_def run_simps start_def
          quota_exceeded_def atomic_write_json_def)
  from quota_exhausted_stops_run[OF h1 refl refl h4 h5 h6]
  show ?thesis
    by (simp add: start_def print_def atomic_write_json_def CONFIG_output_dir_def
          CONFIG_daily_quota_limit_def scenario_videos_def)
qed


text \<open>
  C2 fails on the code. \<^verbatim>\<open>fetch_comment_replies\<close> does raise the quota failure
  again, but the \<^verbatim>\<open>except Exception\<close> around the call in the main block catches it:
  the failure is recorded as a failed fetch, the replies of the next thread are fetched,
  the video is merged and written with the replies of the first thread missing, the next
  video is processed and the run ends without the graceful stop.
\<close>

theorem reply_quota_failure_swallowed:
  "fetch_comment_replies (service reply_quota) ''P1'' ''One'' ''V1'' (start Map.empty)
     = Some (Inl quota_exceeded, (start Map.empty)\<lparr>requests := [Comments_list ''P1'' None]\<rparr>) \<and>
   main (service reply_quota) ''https://www.youtube.com/channel/UCx'' (start Map.empty)
     = Some (Finished,
             \<lparr>quota_used = 5,
              requests = [Channels_list_id ''UCx'', PlaylistItems_list ''UUx'' None,
                          CommentThreads_list ''V1'' None, Comments_list ''P1'' None,
                          Comments_list ''P2'' None, CommentThreads_list ''V2'' None],
              draws = 0, slept = [],
              out = [Processing_channel ''UCx'', Starting_fresh,
                     Found_uploads_playlist ''UUx'', Found_videos 2,
                     Videos_to_process 2, Videos_already_processed 0,
                     Discrepancies_detected 1 ''output/UCx_failed_replies.json'',
                     Processing_complete, Total_comments 3, Total_sub_comments 1,
                     Quota_usage 5 10000 9995],
              files =
                [''output/UCx_comments.json'' \<mapsto>
                   Content (JList
                     [comment_obj ''first'' ''One'' (create_video_link ''V1'') ''2024-01-01'' 0,
                      comment_obj ''second'' ''One'' (create_video_link ''V1'') ''2024-01-02'' 0,
                      comment_obj ''third'' ''Two'' (create_video_link ''V2'') ''2024-01-03'' 0]),
                 ''output/UCx_sub_comments.json'' \<mapsto>
                   Content (JList [sub_comment_obj ''r1'' ''P2'' ''One'' ''V1'' ''2024-01-04'' 0]),
                 ''output/UCx_failed_replies.json'' \<mapsto>
                   Content (JList
                     [fetch_failure ''P1'' ''V1'' ''One'' (create_video_link ''V1'') 2
                        ''quota exceeded''])]\<rparr>)"
proof -
  have a: "fetch_comment_replies (service reply_quota) ''P1'' ''One'' ''V1'' (start Map.empty)
     = Some (Inl quota_exceeded, (start Map.empty)\<lparr>requests := [Comments_list ''P1'' None]\<rparr>)"
    by (simp add: fetch_simps service_def reply_quota_def run_simps start_def quota_exceeded_def)
  have b: "main (service reply_quota) ''https://www.youtube.com/channel/UCx'' (start Map.empty)
     = Some (Finished,
             \<lparr>quota_used = 5,
              requests = [Channels_list_id ''UCx'', PlaylistItems_list ''UUx'' None,
                          CommentThreads_list ''V1'' None, Comments_list ''P1'' None,
                          Comments_list ''P2'' None, CommentThreads_list ''V2'' None],
              draws = 0, slept = [],
              out = [Processing_channel ''UCx'', Starting_fresh,
                     Found_uploads_playlist ''UUx'', Found_videos 2,
                     Videos_to_process 2, Videos_already_processed 0,
                     Discrepancies_detected 1 ''output/UCx_failed_replies.json'',
                     Processing_complete, Total_comments 3, Total_sub_comments 1,
                     Quota_usage 5 10000 9995],
              files =
                [''output/UCx_comments.json'' \<mapsto>
                   Content (JList
                     [comment_obj ''first'' ''One'' (create_video_link ''V1'') ''2024-01-01'' 0,
                      comment_obj ''second'' ''One'' (create_video_link ''V1'') ''2024-01-02'' 0,
                      comment_obj ''third'' ''Two'' (create_video_link ''V2'') ''2024-01-03'' 0]),
                 ''output/UCx_sub_comments.json'' \<mapsto>
                   Content (JList [sub_comment_obj ''r1'' ''P2'' ''One'' ''V1'' ''2024-01-04'' 0]),
                 ''output/UCx_failed_replies.json'' \<mapsto>
                   Content (JList
                     [fetch_failure ''P1'' ''V1'' ''One'' (create_video_link ''V1'') 2
                        ''quota exceeded''])]\<rparr>)"
    by (simp add: main_simps reply_quota_def)
  from a b show ?thesis by (rule conjI)
qed


section \<open>Resuming\<close>




lemma files_print: "files (print e st) = files st"
  by (simp add: print_def)


lemma load_sub_comments_files:
  "load_sub_comments f st = (r, st') \<Longrightarrow> files st' = files st"
  unfolding load_sub_comments_def
  by (auto simp: files_print split: option.splits file_content.splits)






lemma files_quota_exceeded_stop:
  "quota_exceeded_stop L st = (f, st') \<Longrightarrow> files st' = files st"
  unfolding quota_exceeded_stop_def
  by (auto simp: files_print Let_def split: sum.splits)












end
